theory Spec2Isabelle
  imports Complex_Main
begin

section \<open>FlexFX: recipes, the profile compiler and the play-list\<close>

text \<open>
  A shallow embedding of \<^verbatim>\<open>flexFX.ts\<close>. The conventions of the model:
  \<^item> a TypeScript \<^verbatim>\<open>number\<close> that carries a frequency, a volume, a duration or a
    ratio is a \<^typ>\<open>real\<close> that stands for the double of that value. Every \<^verbatim>\<open>+\<close>, \<^verbatim>\<open>-\<close>,
    \<^verbatim>\<open>*\<close> and \<^verbatim>\<open>/\<close> of the code is the exact operation followed by \<open>fl\<close>, the
    rounding to the nearest double; \<^verbatim>\<open>Math.min\<close>, \<^verbatim>\<open>Math.max\<close> and \<^verbatim>\<open>Math.floor\<close> are
    exact. \<^verbatim>\<open>NaN\<close> and \<^verbatim>\<open>Infinity\<close> are not modelled. The numeric codes of wave-shape,
    attack and effect, and the built-in slot, are \<^typ>\<open>int\<close>;
  \<^item> the module's global variables are the fields of one \<^verbatim>\<open>state\<close> record that every
    operation takes and returns;
  \<^item> what an operation does besides changing the globals (spawning the worker, raising
    or awaiting an event, pausing, handing a sound to the synthesiser) is returned as the
    list of these actions, in the order the code performs them;
  \<^item> arrays are those of the MakeCode runtime the extension is written for: \<^verbatim>\<open>find\<close>
    gives the first match or \<^verbatim>\<open>undefined\<close>, \<^verbatim>\<open>indexOf(x, from)\<close> gives \<open>-1\<close> when nothing
    matches at or after \<^verbatim>\<open>from\<close>, and \<^verbatim>\<open>splice\<close> removes nothing when its start is
    negative.
\<close>

subsection \<open>Doubles\<close>

text \<open>
  \<open>fl x\<close> is the double nearest to \<open>x\<close>, ties going to the even significand: \<open>x\<close> is
  measured in units of \<open>ulp\<close>, the spacing of the doubles at its magnitude (\<open>2\<close> to the
  power \<open>e - 52\<close> for \<open>2 ^ e \<le> |x| < 2 ^ (e + 1)\<close>, and \<open>2\<close> to the power \<open>-1074\<close> below
  \<open>2\<close> to the power \<open>-1022\<close>), and rounded to a whole number of them. The exponent is
  found by halving or doubling, at most 1023 and 1022 times. A magnitude of \<open>2 ^ 1024\<close> or
  more, which the code turns into \<^verbatim>\<open>Infinity\<close>, is outside the model.
\<close>

fun exponent_up :: "nat \<Rightarrow> real \<Rightarrow> nat" where
  "exponent_up 0 x = 0"
| "exponent_up (Suc n) x = (if 2 \<le> x then Suc (exponent_up n (x / 2)) else 0)"

fun exponent_down :: "nat \<Rightarrow> real \<Rightarrow> nat" where
  "exponent_down 0 x = 0"
| "exponent_down (Suc n) x = (if x < 1 then Suc (exponent_down n (2 * x)) else 0)"

definition ulp :: "real \<Rightarrow> real" where
  "ulp a = (if 1 \<le> a then 2 ^ exponent_up 1023 a / 2 ^ 52
            else 1 / (2 ^ exponent_down 1022 a * 2 ^ 52))"

definition round_half_even :: "real \<Rightarrow> int" where
  "round_half_even m =
     (let f = \<lfloor>m\<rfloor>; r = m - of_int f
      in if r < 1 / 2 then f else if 1 / 2 < r then f + 1 else if even f then f else f + 1)"

definition fl_abs :: "real \<Rightarrow> real" where
  "fl_abs a = of_int (round_half_even (a / ulp a)) * ulp a"

definition fl :: "real \<Rightarrow> real" where
  "fl x = (if 0 \<le> x then fl_abs x else - fl_abs (- x))"

subsection \<open>Text of numbers\<close>

text \<open>
  \<^verbatim>\<open>convertToText\<close> of an integer is its decimal numeral, with a leading minus sign for
  a negative one. \<^verbatim>\<open>parseInt\<close> skips leading blanks, reads an optional sign and the
  longest run of decimal digits; with no digit the result is \<^verbatim>\<open>NaN\<close>, here \<open>None\<close>.
  (Radix prefixes are not modelled: every text the module parses comes from
  \<^verbatim>\<open>convertToText\<close>. Nor is the exponent form in which the runtime writes a number of
  \<open>10\<^sup>2\<^sup>1\<close> or more.)
\<close>

definition digit_chars :: string where
  "digit_chars = ''0123456789''"

definition digit_char :: "nat \<Rightarrow> char" where
  "digit_char d = digit_chars ! d"

fun nat_to_text :: "nat \<Rightarrow> string" where
  "nat_to_text n =
     (if n < 10 then [digit_char n] else nat_to_text (n div 10) @ [digit_char (n mod 10)])"

declare nat_to_text.simps [simp del]

definition convertToText :: "int \<Rightarrow> string" where
  "convertToText i = (if i < 0 then CHR ''-'' # nat_to_text (nat (- i)) else nat_to_text (nat i))"

definition is_digit :: "char \<Rightarrow> bool" where
  "is_digit c = (c \<in> set digit_chars)"

definition is_blank :: "char \<Rightarrow> bool" where
  "is_blank c = (c \<in> set [CHR '' '', CHR 0x09, CHR 0x0A, CHR 0x0B, CHR 0x0C, CHR 0x0D])"

fun position_of :: "char \<Rightarrow> string \<Rightarrow> nat" where
  "position_of c [] = 0"
| "position_of c (x # xs) = (if x = c then 0 else Suc (position_of c xs))"

definition digit_val :: "char \<Rightarrow> nat" where
  "digit_val c = position_of c digit_chars"

fun digits_value :: "nat \<Rightarrow> string \<Rightarrow> nat" where
  "digits_value acc [] = acc"
| "digits_value acc (c # cs) = digits_value (acc * 10 + digit_val c) cs"

definition parse_digits :: "string \<Rightarrow> nat option" where
  "parse_digits s =
     (let ds = takeWhile is_digit s in if ds = [] then None else Some (digits_value 0 ds))"

definition parseInt :: "string \<Rightarrow> int option" where
  "parseInt s =
     (case dropWhile is_blank s of
        [] \<Rightarrow> None
      | c # cs \<Rightarrow>
          if c = CHR ''-'' then map_option (\<lambda>n. - int n) (parse_digits cs)
          else if c = CHR ''+'' then map_option int (parse_digits cs)
          else map_option int (parse_digits (c # cs)))"

text \<open>\<^verbatim>\<open>s.slice(1, s.length)\<close>: the string without its first character.\<close>

definition slice1 :: "string \<Rightarrow> string" where
  "slice1 s = drop 1 s"

subsection \<open>Plays and their parts\<close>

text \<open>
  A part of a Play is a string. The strings the module builds itself are kept as they
  are (\<open>Text\<close>): \<^verbatim>\<open>"_" + n\<close> for a gap inside a performance and \<^verbatim>\<open>"s" + n\<close> for a
  queued pause. The string that \<^verbatim>\<open>music.createSoundEffect\<close> returns belongs to the
  platform; it is kept as the call that made it, with the arguments in the order of the
  call: wave-shape, start and end frequency, start and end volume, duration, effect and
  interpolation curve. Its first character is the digit of the wave-shape, so it is
  neither \<open>s\<close> nor \<open>_\<close>.
\<close>

datatype part =
  SoundEffect int real real real real real int int
| Text string

record Play =
  parts :: "part list"

text \<open>\<^verbatim>\<open>p.charAt(0) == c\<close>\<close>

definition charAt0_is :: "part \<Rightarrow> char \<Rightarrow> bool" where
  "charAt0_is p c =
     (case p of
        SoundEffect w f0 f1 v0 v1 ms e a \<Rightarrow> False
      | Text s \<Rightarrow> (case s of [] \<Rightarrow> False | d # _ \<Rightarrow> d = c))"

text \<open>\<^verbatim>\<open>parseInt(sound.slice(1, sound.length))\<close> (the module never parses a sound string
  of the platform; the model gives \<open>None\<close> for one).\<close>

definition encoded_ms :: "part \<Rightarrow> int option" where
  "encoded_ms p = (case p of SoundEffect w f0 f1 v0 v1 ms e a \<Rightarrow> None | Text s \<Rightarrow> parseInt (slice1 s))"

subsection \<open>Recipes\<close>

text \<open>
  A \<^verbatim>\<open>FlexFX\<close> object. \<^verbatim>\<open>id\<close> is \<open>None\<close> when it is \<^verbatim>\<open>undefined\<close> (what
  \<^verbatim>\<open>builtInId[builtIn]\<close> gives for a slot outside the table).
\<close>

record FlexFX =
  id_fx :: "string option"
  playPartA :: bool
  waveA :: int
  attackA :: int
  effectA :: int
  timeRatioA :: real
  skipPartB :: bool
  playPartB :: bool
  waveB :: int
  attackB :: int
  effectB :: int
  timeRatioB :: real
  playPartC :: bool
  waveC :: int
  attackC :: int
  effectC :: int
  timeRatioC :: real
  freqRatio0 :: real
  volRatio0 :: real
  freqRatio1 :: real
  volRatio1 :: real
  usesPoint2 :: bool
  freqRatio2 :: real
  volRatio2 :: real
  usesPoint3 :: bool
  freqRatio3 :: real
  volRatio3 :: real
  defaultFreq :: real
  defaultVol :: real
  defaultMs :: real

text \<open>
  The constructor sets \<^verbatim>\<open>id\<close> and clears five flags. Every other field is
  \<^verbatim>\<open>undefined\<close> until a setter writes it; the model starts the numbers at \<open>0\<close> and
  \<^verbatim>\<open>skipPartB\<close>, which the code tests without ever clearing it, at \<open>False\<close>.
\<close>

definition new_FlexFX :: "string \<Rightarrow> FlexFX" where
  "new_FlexFX i =
     \<lparr> id_fx = Some i,
       playPartA = False, waveA = 0, attackA = 0, effectA = 0, timeRatioA = 0,
       skipPartB = False,
       playPartB = False, waveB = 0, attackB = 0, effectB = 0, timeRatioB = 0,
       playPartC = False, waveC = 0, attackC = 0, effectC = 0, timeRatioC = 0,
       freqRatio0 = 0, volRatio0 = 0, freqRatio1 = 0, volRatio1 = 0,
       usesPoint2 = False, freqRatio2 = 0, volRatio2 = 0,
       usesPoint3 = False, freqRatio3 = 0, volRatio3 = 0,
       defaultFreq = 0, defaultVol = 0, defaultMs = 0 \<rparr>"

definition goodFreqRatio :: "real \<Rightarrow> real" where
  "goodFreqRatio freq = min (max freq 0) 2000"

definition goodVolRatio :: "real \<Rightarrow> real" where
  "goodVolRatio vol = min (max vol 0) 100"

definition goodTimeRatio :: "real \<Rightarrow> real \<Rightarrow> real" where
  "goodTimeRatio time timeLeft = min (max time 0) timeLeft"

definition setPartA ::
  "real \<Rightarrow> real \<Rightarrow> int \<Rightarrow> int \<Rightarrow> int \<Rightarrow> real \<Rightarrow> real \<Rightarrow> real \<Rightarrow> FlexFX \<Rightarrow> FlexFX" where
  "setPartA freq0 vol0 wave attack effect freq1 vol1 ms1 this =
     this\<lparr> freqRatio0 := goodFreqRatio freq0,
           volRatio0 := goodVolRatio vol0,
           freqRatio1 := goodFreqRatio freq1,
           volRatio1 := goodVolRatio vol1,
           timeRatioA := goodTimeRatio ms1 1.0,
           waveA := wave,
           attackA := attack,
           effectA := effect,
           playPartA := True,
           playPartB := False,
           playPartC := False,
           usesPoint2 := False,
           usesPoint3 := False \<rparr>"

definition setPartB :: "int \<Rightarrow> int \<Rightarrow> int \<Rightarrow> real \<Rightarrow> real \<Rightarrow> real \<Rightarrow> FlexFX \<Rightarrow> FlexFX" where
  "setPartB wave attack effect freq2 vol2 ms2 this =
     this\<lparr> freqRatio2 := goodFreqRatio freq2,
           volRatio2 := goodVolRatio vol2,
           timeRatioB := goodTimeRatio ms2 (fl (1.0 - timeRatioA this)),
           waveB := wave,
           attackB := attack,
           effectB := effect,
           playPartB := True,
           usesPoint2 := True \<rparr>"

definition silentPartB :: "real \<Rightarrow> real \<Rightarrow> real \<Rightarrow> FlexFX \<Rightarrow> FlexFX" where
  "silentPartB freq2 vol2 ms2 this =
     this\<lparr> freqRatio2 := goodFreqRatio freq2,
           volRatio2 := goodVolRatio vol2,
           timeRatioB := goodTimeRatio ms2 (fl (1.0 - timeRatioA this)),
           skipPartB := True \<rparr>"

definition setPartC :: "int \<Rightarrow> int \<Rightarrow> int \<Rightarrow> real \<Rightarrow> real \<Rightarrow> real \<Rightarrow> FlexFX \<Rightarrow> FlexFX" where
  "setPartC wave attack effect freq3 vol3 ms3 this =
     this\<lparr> freqRatio3 := goodFreqRatio freq3,
           volRatio3 := goodVolRatio vol3,
           timeRatioC := goodTimeRatio ms3 (fl (fl (1.0 - timeRatioA this) - timeRatioB this)),
           waveC := wave,
           attackC := attack,
           effectC := effect,
           playPartC := True,
           usesPoint2 := True,
           usesPoint3 := True \<rparr>"

definition setDefaults :: "real \<Rightarrow> real \<Rightarrow> real \<Rightarrow> FlexFX \<Rightarrow> FlexFX" where
  "setDefaults freq vol ms this =
     this\<lparr> defaultFreq := freq, defaultVol := vol, defaultMs := ms \<rparr>"

subsection \<open>The module's globals and the actions of a call\<close>

record state =
  playList :: "Play list"
  playerPlaying :: bool
  playerActive :: bool
  playerStopped :: bool
  flexFXList :: "FlexFX list"

datatype PLAYER = STARTING | FINISHED | ALLPLAYED

text \<open>
  \<open>InBackground\<close> is \<^verbatim>\<open>control.inBackground(() => player())\<close>; \<open>RaiseEvent\<close> and
  \<open>WaitForEvent\<close> are \<^verbatim>\<open>control.raiseEvent\<close> and \<^verbatim>\<open>control.waitForEvent\<close> on
  \<^verbatim>\<open>FLEXFX_ACTIVITY_ID\<close>; \<open>Pause\<close> is \<^verbatim>\<open>pause\<close> (\<open>None\<close> for \<^verbatim>\<open>NaN\<close>);
  \<open>PlaySoundEffect\<close> is \<^verbatim>\<open>music.playSoundEffect(sound, UntilDone)\<close>.
\<close>

datatype action =
  InBackground
| RaiseEvent PLAYER
| WaitForEvent PLAYER
| Pause "int option"
| PlaySoundEffect part

subsection \<open>The profile compiler\<close>

definition compilePlay :: "FlexFX \<Rightarrow> real \<Rightarrow> real \<Rightarrow> real \<Rightarrow> state \<Rightarrow> state" where
  "compilePlay this freq_arg vol_arg ms_arg s =
     (let freq = (if freq_arg = 0 then defaultFreq this else freq_arg);
          vol = (if vol_arg = 0 then defaultVol this else vol_arg);
          ms = (if ms_arg = 0 then defaultMs this else ms_arg);
          f0 = fl (freq * freqRatio0 this);
          v0 = fl (vol * volRatio0 this);
          f1 = fl (freq * freqRatio1 this);
          v1 = fl (vol * volRatio1 this);
          ms1 = fl (ms * timeRatioA this);
          f2 = (if usesPoint2 this then fl (freq * freqRatio2 this) else 0);
          v2 = (if usesPoint2 this then fl (vol * volRatio2 this) else 0);
          ms2 = (if usesPoint2 this then fl (ms * timeRatioB this) else 0);
          f3 = (if usesPoint3 this then fl (freq * freqRatio3 this) else 0);
          v3 = (if usesPoint3 this then fl (vol * volRatio3 this) else 0);
          ms3 = (if usesPoint3 this then fl (ms * timeRatioC this) else 0);
          partsA = (if playPartA this
                    then [SoundEffect (waveA this) f0 f1 v0 v1 ms1 (effectA this) (attackA this)]
                    else []);
          partsB = (if playPartB this
                    then partsA @ [SoundEffect (waveB this) f1 f2 v1 v2 ms2 (effectB this) (attackB this)]
                    else if skipPartB this
                    then partsA @ [Text (CHR ''_'' # convertToText \<lfloor>fl (ms * timeRatioB this)\<rfloor>)]
                    else partsA);
          partsC = (if playPartC this
                    then partsB @ [SoundEffect (waveC this) f2 f3 v2 v3 ms3 (effectC this) (attackC this)]
                    else partsB);
          play = \<lparr> parts = partsC \<rparr>
      in s\<lparr> playList := playList s @ [play] \<rparr>)"

subsection \<open>The recipe registry\<close>

definition builtInId :: "string list" where
  "builtInId =
     [''laugh'', ''uh-oh'', ''scream'', ''cry'', ''moan'',
      ''shout'', ''violin'', ''horn'', ''sax'', ''flute'',
      ''tweet'', ''ting'', ''chime'', ''whale'', ''miaow'',
      ''cluck'', ''woof'', ''moo'', ''motor'', ''siren'']"

text \<open>\<^verbatim>\<open>builtInId[builtIn]\<close>: \<^verbatim>\<open>undefined\<close> outside the table.\<close>

definition builtInId_at :: "int \<Rightarrow> string option" where
  "builtInId_at builtIn =
     (if 0 \<le> builtIn \<and> builtIn < int (length builtInId) then Some (builtInId ! nat builtIn)
      else None)"

text \<open>
  \<^verbatim>\<open>Array.find\<close> returns an object of the array, and \<^verbatim>\<open>indexOf\<close> looks for that very
  object. Every element of \<^verbatim>\<open>flexFXList\<close> is an object of its own (\<^verbatim>\<open>storeFlexFX\<close>
  pushes only what a create function has just made with \<^verbatim>\<open>new\<close>), so the object found
  sits at the one position where \<^verbatim>\<open>find\<close> met it, and \<^verbatim>\<open>undefined\<close> sits nowhere. The
  model therefore passes the position on: \<open>find_pos\<close> is \<^verbatim>\<open>find\<close>, giving the place of
  the first match, and \<open>indexOf_found found from\<close> is \<^verbatim>\<open>indexOf(found, from)\<close>.
\<close>

fun find_pos :: "('a \<Rightarrow> bool) \<Rightarrow> 'a list \<Rightarrow> nat option" where
  "find_pos P [] = None"
| "find_pos P (x # xs) = (if P x then Some 0 else map_option Suc (find_pos P xs))"

definition indexOf_found :: "nat option \<Rightarrow> nat \<Rightarrow> int" where
  "indexOf_found found fromIndex =
     (case found of
        None \<Rightarrow> - 1
      | Some k \<Rightarrow> if fromIndex \<le> k then int k else - 1)"

text \<open>
  \<^verbatim>\<open>xs.splice(start, deleteCount)\<close>, the array it leaves (\<open>splice\<close> is a list function of
  HOL already). The runtime's \<^verbatim>\<open>splice\<close> returns at once when \<^verbatim>\<open>start\<close> is negative;
  otherwise it removes the element at \<^verbatim>\<open>start\<close>, \<^verbatim>\<open>deleteCount\<close> times over, as long as
  there is one.
\<close>

definition splice_array :: "int \<Rightarrow> int \<Rightarrow> 'a list \<Rightarrow> 'a list" where
  "splice_array start deleteCount xs =
     (if start < 0 then xs
      else take (nat start) xs @ drop (nat start + nat deleteCount) xs)"

definition storeFlexFX :: "int \<Rightarrow> FlexFX \<Rightarrow> state \<Rightarrow> state" where
  "storeFlexFX builtIn target s =
     (let kept = splice_array (indexOf_found (find_pos (\<lambda>i. id_fx i = id_fx target) (flexFXList s)) 1) 1
                   (flexFXList s);
          stored = (if builtIn < 1000 then target\<lparr> id_fx := builtInId_at builtIn \<rparr> else target)
      in s\<lparr> flexFXList := kept @ [stored] \<rparr>)"

subsection \<open>The background player\<close>

definition activatePlayer :: "state \<Rightarrow> state \<times> action list" where
  "activatePlayer s =
     (if \<not> (playerActive s \<or> playerStopped s)
      then (s\<lparr> playerActive := True \<rparr>, [InBackground])
      else (s, []))"

text \<open>
  The worker runs in a fibre of its own. The model runs it alone: no other fibre changes
  the globals while it pauses or plays. \<^verbatim>\<open>play.parts[0].charAt(0)\<close> throws when the
  Play has no part; the fibre then ends there (\<open>TypeError\<close>).
\<close>

datatype completion = Returned | TypeError

text \<open>The inner loop: \<^verbatim>\<open>while (play.parts.length > 0) { sound = play.parts.shift(); ... }\<close>\<close>

fun play_parts :: "part list \<Rightarrow> action list" where
  "play_parts [] = []"
| "play_parts (sound # rest) =
     (if charAt0_is sound (CHR ''_'') then Pause (encoded_ms sound) else PlaySoundEffect sound)
     # play_parts rest"

text \<open>
  One turn of the outer loop, entered with a non-empty play-list. The second component
  lists the actions; the third lists the values written to \<^verbatim>\<open>playerPlaying\<close> during the
  turn, which other fibres can read while the worker is blocked.
\<close>

definition player_turn :: "state \<Rightarrow> state \<times> action list \<times> bool list \<times> completion" where
  "player_turn s =
     (case playList s of
        [] \<Rightarrow> (s, [], [], TypeError)
      | play # rest \<Rightarrow>
          let s1 = s\<lparr> playList := rest \<rparr> in
          (case parts play of
             [] \<Rightarrow> (s1, [], [], TypeError)
           | first # others \<Rightarrow>
               if charAt0_is first (CHR ''s'')
               then (s1, [Pause (encoded_ms first)], [], Returned)
               else (s1\<lparr> playerPlaying := False \<rparr>,
                     [RaiseEvent STARTING] @ play_parts (parts play) @ [RaiseEvent FINISHED],
                     [True, False], Returned)))"

lemma player_turn_shorter:
  "playList s \<noteq> [] \<Longrightarrow> player_turn s = (s', r) \<Longrightarrow> length (playList s') < length (playList s)"
  by (auto simp: player_turn_def Let_def split: list.splits if_splits)

function player_loop :: "state \<Rightarrow> state \<times> action list \<times> completion" where
  "player_loop s =
     (if 0 < length (playList s) \<and> \<not> playerStopped s
      then (case player_turn s of
              (s1, acts, written, TypeError) \<Rightarrow> (s1, acts, TypeError)
            | (s1, acts, written, Returned) \<Rightarrow>
                (case player_loop s1 of (s2, acts2, c) \<Rightarrow> (s2, acts @ acts2, c)))
      else (s, [], Returned))"
  by pat_completeness auto
termination
  by (relation "measure (\<lambda>s. length (playList s))") (auto dest: player_turn_shorter [OF _ sym])

definition player :: "state \<Rightarrow> state \<times> action list \<times> completion" where
  "player s =
     (case player_loop s of
        (s1, acts, TypeError) \<Rightarrow> (s1, acts, TypeError)
      | (s1, acts, Returned) \<Rightarrow>
          (s1\<lparr> playerActive := False \<rparr>,
           acts @ (if length (playList s1) = 0 then [RaiseEvent ALLPLAYED] else []),
           Returned))"

declare player_loop.simps [simp del]

subsection \<open>The exported operations\<close>

definition playFlexFX :: "string \<Rightarrow> real \<Rightarrow> real \<Rightarrow> real \<Rightarrow> bool \<Rightarrow> state \<Rightarrow> state \<times> action list" where
  "playFlexFX ident pitch volume dur background s =
     (case find (\<lambda>i. id_fx i = Some ident) (flexFXList s) of
        None \<Rightarrow> (s, [])
      | Some target \<Rightarrow>
          (case activatePlayer (compilePlay target pitch volume dur s) of
             (s2, acts) \<Rightarrow>
               (s2, acts @ (if \<not> background then [WaitForEvent ALLPLAYED] else []))))"

text \<open>
  \<^verbatim>\<open>playBuiltInFlexFX(choice, ...)\<close> is \<^verbatim>\<open>playFlexFX(builtInId[choice], ...)\<close>. For a
  choice outside the table the id passed is \<^verbatim>\<open>undefined\<close>, and \<^verbatim>\<open>find\<close> then looks for a
  recipe whose id is \<^verbatim>\<open>undefined\<close>.
\<close>

definition playBuiltInFlexFX :: "int \<Rightarrow> real \<Rightarrow> real \<Rightarrow> real \<Rightarrow> bool \<Rightarrow> state \<Rightarrow> state \<times> action list" where
  "playBuiltInFlexFX choice pitch volume dur background s =
     (case builtInId_at choice of
        Some name \<Rightarrow> playFlexFX name pitch volume dur background s
      | None \<Rightarrow>
          (case find (\<lambda>i. id_fx i = None) (flexFXList s) of
             None \<Rightarrow> (s, [])
           | Some target \<Rightarrow>
               (case activatePlayer (compilePlay target pitch volume dur s) of
                  (s2, acts) \<Rightarrow>
                    (s2, acts @ (if \<not> background then [WaitForEvent ALLPLAYED] else [])))))"

definition createFlexFX ::
  "string \<Rightarrow> real \<Rightarrow> real \<Rightarrow> int \<Rightarrow> int \<Rightarrow> int \<Rightarrow> real \<Rightarrow> real \<Rightarrow>
   real \<Rightarrow> real \<Rightarrow> real \<Rightarrow> int \<Rightarrow> state \<Rightarrow> state" where
  "createFlexFX ident startPitchPercent startVolPercent wave attack effect
     endPitchPercent endVolPercent pitch volume dur builtIn s =
     (let target = new_FlexFX ident;
          target = setPartA (fl (startPitchPercent / 100)) (fl (startVolPercent / 100))
                     wave attack effect (fl (endPitchPercent / 100)) (fl (endVolPercent / 100))
                     1.0 target;
          target = setDefaults pitch volume dur target
      in storeFlexFX builtIn target s)"

definition create2PartFlexFX ::
  "string \<Rightarrow> real \<Rightarrow> real \<Rightarrow> int \<Rightarrow> int \<Rightarrow> int \<Rightarrow> real \<Rightarrow> real \<Rightarrow>
   int \<Rightarrow> int \<Rightarrow> int \<Rightarrow> real \<Rightarrow> real \<Rightarrow> real \<Rightarrow>
   real \<Rightarrow> real \<Rightarrow> real \<Rightarrow> int \<Rightarrow> state \<Rightarrow> state" where
  "create2PartFlexFX ident startPitchPercent startVolPercent waveA' attackA' effectA'
     midPitchPercent midVolPercent waveB' attackB' effectB' endPitchPercent endVolPercent
     timePercentA pitch volume dur builtIn s =
     (let target = new_FlexFX ident;
          target = setPartA (fl (startPitchPercent / 100)) (fl (startVolPercent / 100))
                     waveA' attackA' effectA' (fl (midPitchPercent / 100)) (fl (midVolPercent / 100))
                     (fl (timePercentA / 100)) target;
          target = setPartB waveB' attackB' effectB'
                     (fl (endPitchPercent / 100)) (fl (endVolPercent / 100))
                     (fl (100 - fl (timePercentA / 100))) target;
          target = setDefaults pitch volume dur target
      in storeFlexFX builtIn target s)"

definition create3PartFlexFX ::
  "string \<Rightarrow> real \<Rightarrow> real \<Rightarrow> int \<Rightarrow> int \<Rightarrow> int \<Rightarrow> real \<Rightarrow> real \<Rightarrow>
   int \<Rightarrow> int \<Rightarrow> int \<Rightarrow> real \<Rightarrow> real \<Rightarrow>
   int \<Rightarrow> int \<Rightarrow> int \<Rightarrow> real \<Rightarrow> real \<Rightarrow> real \<Rightarrow> real \<Rightarrow>
   real \<Rightarrow> real \<Rightarrow> real \<Rightarrow> int \<Rightarrow> state \<Rightarrow> state" where
  "create3PartFlexFX ident startPitchPercent startVolPercent waveA' attackA' effectA'
     pitchABPercent volABPercent waveB' attackB' effectB' pitchBCPercent volBCPercent
     waveC' attackC' effectC' endPitchPercent endVolPercent timePercentA timePercentB
     pitch volume dur builtIn s =
     (let target = new_FlexFX ident;
          target = setPartA (fl (startPitchPercent / 100)) (fl (startVolPercent / 100))
                     waveA' attackA' effectA' (fl (pitchABPercent / 100)) (fl (volABPercent / 100))
                     (fl (timePercentA / 100)) target;
          target = setPartB waveB' attackB' effectB'
                     (fl (pitchBCPercent / 100)) (fl (volBCPercent / 100))
                     (fl (timePercentB / 100)) target;
          target = setPartC waveC' attackC' effectC'
                     (fl (endPitchPercent / 100)) (fl (endVolPercent / 100))
                     (fl (fl (fl (100 - timePercentA) - timePercentB) / 100)) target;
          target = setDefaults pitch volume dur target
      in storeFlexFX builtIn target s)"

definition createDoubleFlexFX ::
  "string \<Rightarrow> real \<Rightarrow> real \<Rightarrow> int \<Rightarrow> int \<Rightarrow> int \<Rightarrow> real \<Rightarrow> real \<Rightarrow>
   real \<Rightarrow> real \<Rightarrow> int \<Rightarrow> int \<Rightarrow> int \<Rightarrow> real \<Rightarrow> real \<Rightarrow> real \<Rightarrow> real \<Rightarrow>
   real \<Rightarrow> real \<Rightarrow> real \<Rightarrow> int \<Rightarrow> state \<Rightarrow> state" where
  "createDoubleFlexFX ident startPitchAPercent startVolAPercent waveA' attackA' effectA'
     endPitchAPercent endVolAPercent startPitchBPercent startVolBPercent
     waveB' attackB' effectB' endPitchBPercent endVolBPercent timePercentA timeGapPercent
     pitch volume dur builtIn s =
     (let target = new_FlexFX ident;
          target = setPartA (fl (startPitchAPercent / 100)) (fl (startVolAPercent / 100))
                     waveA' attackA' effectA' (fl (endPitchAPercent / 100)) (fl (endVolAPercent / 100))
                     (fl (timePercentA / 100)) target;
          target = silentPartB (fl (startPitchBPercent / 100)) (fl (startVolBPercent / 100))
                     (fl (timeGapPercent / 100)) target;
          target = setPartC waveB' attackB' effectB'
                     (fl (endPitchBPercent / 100)) (fl (endVolBPercent / 100))
                     (fl (fl (fl (100 - timePercentA) - timeGapPercent) / 100)) target;
          target = setDefaults pitch volume dur target
      in storeFlexFX builtIn target s)"

definition performSilence :: "real \<Rightarrow> state \<Rightarrow> state \<times> action list" where
  "performSilence ms s =
     (let play = \<lparr> parts = [Text (CHR ''s'' # convertToText \<lfloor>ms\<rfloor>)] \<rparr>
      in activatePlayer (s\<lparr> playList := playList s @ [play] \<rparr>))"

definition awaitPlayStart :: "state \<Rightarrow> state \<times> action list" where
  "awaitPlayStart s =
     (if int (length (playList s)) \<ge> 0
      then (case activatePlayer (s\<lparr> playerStopped := False \<rparr>) of
              (s2, acts) \<Rightarrow> (s2, acts @ [WaitForEvent STARTING]))
      else (s, []))"

definition awaitPlayFinish :: "state \<Rightarrow> state \<times> action list" where
  "awaitPlayFinish s = (if playerPlaying s then (s, [WaitForEvent FINISHED]) else (s, []))"

definition awaitAllFinished :: "state \<Rightarrow> state \<times> action list" where
  "awaitAllFinished s =
     (if int (length (playList s)) \<ge> 0
      then (case activatePlayer (s\<lparr> playerStopped := False \<rparr>) of
              (s2, acts) \<Rightarrow> (s2, acts @ [WaitForEvent ALLPLAYED]))
      else (s, []))"

definition waitingToPlay :: "state \<Rightarrow> nat" where
  "waitingToPlay s = length (playList s)"

definition stopPlaying :: "state \<Rightarrow> state" where
  "stopPlaying s = s\<lparr> playerStopped := True \<rparr>"

definition startPlaying :: "state \<Rightarrow> state \<times> action list" where
  "startPlaying s = activatePlayer (s\<lparr> playerStopped := False \<rparr>)"

text \<open>\<^verbatim>\<open>while (playList.length > 0) { playList.pop() }\<close>\<close>

fun pop_all :: "'a list \<Rightarrow> 'a list" where
  "pop_all [] = []"
| "pop_all (x # xs) = pop_all (butlast (x # xs))"

definition deletePlaylist :: "state \<Rightarrow> state" where
  "deletePlaylist s = s\<lparr> playList := pop_all (playList s) \<rparr>"

text \<open>The globals as the module declares them, before any recipe is stored.\<close>

definition initial_globals :: state where
  "initial_globals =
     \<lparr> playList = [], playerPlaying = False, playerActive = False, playerStopped = False,
       flexFXList = [] \<rparr>"

subsection \<open>The globals the module can reach\<close>

text \<open>
  The globals start as declared and change only through the exported operations that
  write them and through the worker. Each operation is taken as one step (for the
  worker: one whole run).
\<close>

inductive reachable :: "state \<Rightarrow> bool" where
  initial: "reachable initial_globals"
| create: "reachable s \<Longrightarrow>
     reachable (createFlexFX ident sp sv w a e ep ev pitch volume dur builtIn s)"
| create2: "reachable s \<Longrightarrow>
     reachable (create2PartFlexFX ident sp sv wA aA eA mp mv wB aB eB ep ev tA pitch volume dur builtIn s)"
| create3: "reachable s \<Longrightarrow>
     reachable (create3PartFlexFX ident sp sv wA aA eA p1 v1 wB aB eB p2 v2 wC aC eC ep ev tA tB
                  pitch volume dur builtIn s)"
| createDouble: "reachable s \<Longrightarrow>
     reachable (createDoubleFlexFX ident sp sv wA aA eA ep ev sp2 sv2 wB aB eB ep2 ev2 tA tG
                  pitch volume dur builtIn s)"
| play: "reachable s \<Longrightarrow> reachable (fst (playFlexFX ident pitch volume dur background s))"
| play_built_in: "reachable s \<Longrightarrow>
     reachable (fst (playBuiltInFlexFX choice pitch volume dur background s))"
| silence: "reachable s \<Longrightarrow> reachable (fst (performSilence ms s))"
| await_start: "reachable s \<Longrightarrow> reachable (fst (awaitPlayStart s))"
| await_all: "reachable s \<Longrightarrow> reachable (fst (awaitAllFinished s))"
| stop: "reachable s \<Longrightarrow> reachable (stopPlaying s)"
| start: "reachable s \<Longrightarrow> reachable (fst (startPlaying s))"
| delete: "reachable s \<Longrightarrow> reachable (deletePlaylist s)"
| worker: "reachable s \<Longrightarrow> reachable (fst (player s))"

text \<open>
  What the setters leave behind in every recipe a create function stores, and what the
  two places that push a Play leave on the play-list.
\<close>

definition flags_consistent :: "FlexFX \<Rightarrow> bool" where
  "flags_consistent r =
     (playPartA r \<and> (playPartB r \<longrightarrow> usesPoint2 r)
      \<and> (playPartC r \<longrightarrow> usesPoint2 r \<and> usesPoint3 r \<and> (playPartB r \<or> skipPartB r)))"

definition ratios_nonneg :: "FlexFX \<Rightarrow> bool" where
  "ratios_nonneg r =
     (0 \<le> timeRatioA r \<and> (playPartB r \<or> skipPartB r \<longrightarrow> 0 \<le> timeRatioB r)
      \<and> (playPartC r \<longrightarrow> 0 \<le> timeRatioC r))"

definition globals_ok :: "state \<Rightarrow> bool" where
  "globals_ok s = ((\<forall>r \<in> set (flexFXList s). flags_consistent r \<and> ratios_nonneg r)
                  \<and> (\<forall>p \<in> set (playList s). parts p \<noteq> []))"

subsection \<open>Notions the properties are stated with\<close>

text \<open>The time ratios of the parts a recipe declares (part B sounding or silent), summed.\<close>

definition declared_time_sum :: "FlexFX \<Rightarrow> real" where
  "declared_time_sum r =
     (if playPartA r then timeRatioA r else 0)
     + (if playPartB r \<or> skipPartB r then timeRatioB r else 0)
     + (if playPartC r then timeRatioC r else 0)"

text \<open>
  How long the worker spends on a part: a sound lasts the duration it was created with,
  a text part the milliseconds the worker reads from it. The total of a Play is the sum
  over its parts, \<open>None\<close> when one of them is \<^verbatim>\<open>NaN\<close>.
\<close>

definition segment_ms :: "part \<Rightarrow> real option" where
  "segment_ms p =
     (case p of
        SoundEffect w f0 f1 v0 v1 ms e a \<Rightarrow> Some ms
      | Text s \<Rightarrow> map_option real_of_int (encoded_ms p))"

fun total_ms :: "part list \<Rightarrow> real option" where
  "total_ms [] = Some 0"
| "total_ms (p # ps) =
     (case segment_ms p of
        None \<Rightarrow> None
      | Some d \<Rightarrow> map_option (\<lambda>t. d + t) (total_ms ps))"

text \<open>What the worker does for one Play that has a part: the actions of one turn of its loop.\<close>

definition actions_for :: "Play \<Rightarrow> action list" where
  "actions_for p = fst (snd (player_turn (initial_globals\<lparr> playList := [p] \<rparr>)))"

text \<open>Each sound that directly follows a sound starts at the frequency and volume where that one ended.\<close>

fun profile_continuous :: "part list \<Rightarrow> bool" where
  "profile_continuous (SoundEffect w f0 f1 v0 v1 d e a # SoundEffect w' g0 g1 u0 u1 d' e' a' # rest) =
     (f1 = g0 \<and> v1 = u0 \<and> profile_continuous (SoundEffect w' g0 g1 u0 u1 d' e' a' # rest))"
| "profile_continuous (p # rest) = profile_continuous rest"
| "profile_continuous [] = True"

subsection \<open>Example registries\<close>

text \<open>
  A simple recipe \<open>ting\<close> that falls from 100\% to 90\% of the pitch and from 100\% to 80\%
  of the volume, stored in the empty registry; then a recipe \<open>tong\<close> stored after it;
  then, after these two, either \<open>ting\<close> created once more, now falling to 50\% and with
  400 Hz as default pitch, or \<open>tong\<close> created once more with 600 Hz as default pitch.
\<close>

definition ting_registry :: state where
  "ting_registry = createFlexFX ''ting'' 100 100 0 0 0 90 80 800 200 400 1000 initial_globals"




text \<open>A pause of 250.7 ms queued on the initial globals.\<close>

definition pause_queued :: state where
  "pause_queued = fst (performSilence (2507 / 10) initial_globals)"

text \<open>
  Two of the built-in recipes of the module, the three-part violin and the double siren,
  each stored in the empty registry with the arguments of the source. The codes given for
  wave-shape, attack and effect stand for the platform's enum values.
\<close>

definition violin_registry :: state where
  "violin_registry =
     create3PartFlexFX '''' 1 100 1 2 0 100 75 1 0 0 100 75 1 0 0 10 100 10 85 440 200 500 6
       initial_globals"

definition siren_registry :: state where
  "siren_registry =
     createDoubleFlexFX '''' 95 80 1 0 0 100 100 70 100 1 0 0 75 80 45 10 800 200 1000 19
       initial_globals"

text \<open>
  Two three-part recipes with a level profile, one with 1\% and 6\% of the time for its
  first two parts, one with 9\% and 74\%.
\<close>

definition slow_end_registry :: state where
  "slow_end_registry =
     create3PartFlexFX ''slow-end'' 100 100 0 0 0 100 100 0 0 0 100 100 0 0 0 100 100 1 6
       800 200 400 1000 initial_globals"

definition long_middle_registry :: state where
  "long_middle_registry =
     create3PartFlexFX ''long-middle'' 100 100 0 0 0 100 100 0 0 0 100 100 0 0 0 100 100 9 74
       800 200 400 1000 initial_globals"

text \<open>A double recipe with a level profile: 45\% sound, a gap of 29\%, then sound.\<close>

definition short_gap_registry :: state where
  "short_gap_registry =
     createDoubleFlexFX ''short-gap'' 100 100 0 0 0 100 100 100 100 0 0 0 100 100 45 29
       800 200 400 1000 initial_globals"

section \<open>Rounding to a double\<close>

text \<open>
  A rounded value keeps the sign of the exact one and differs from it by at most half a
  unit in the last place: by at most one part in \<open>2 ^ 53\<close>, or by \<open>2\<close> to the power
  \<open>-1075\<close> where the doubles are subnormal.
\<close>

lemma exponent_up_le: "1 \<le> x \<Longrightarrow> 2 ^ exponent_up n x \<le> x"
proof (induction n arbitrary: x)
  case 0
  then show ?case by simp
next
  case (Suc n)
  show ?case
  proof (cases "2 \<le> x")
    case True
    then have "2 ^ exponent_up n (x / 2) \<le> x / 2"
      using Suc.IH [of "x / 2"] by simp
    with True show ?thesis by simp
  next
    case False
    with Suc.prems show ?thesis by simp
  qed
qed

lemma exponent_down_reaches:
  "exponent_down n x = n \<or> 1 \<le> 2 ^ exponent_down n x * x"
proof (induction n arbitrary: x)
  case 0
  show ?case by simp
next
  case (Suc n)
  show ?case
  proof (cases "x < 1")
    case True
    with Suc.IH [of "2 * x"] show ?thesis by (auto simp: mult.assoc)
  next
    case False
    then show ?thesis by simp
  qed
qed

lemma ulp_pos: "0 < ulp a"
  by (simp add: ulp_def)

lemma ulp_le: "0 \<le> a \<Longrightarrow> ulp a \<le> a / 2 ^ 52 + 1 / 2 ^ 1074"
proof (cases "1 \<le> a")
  case True
  then have "2 ^ exponent_up 1023 a \<le> a" by (rule exponent_up_le)
  then have "2 ^ exponent_up 1023 a / 2 ^ 52 \<le> a / 2 ^ 52"
    by (simp add: divide_right_mono)
  with True show ?thesis by (simp add: ulp_def)
next
  case False
  assume a: "0 \<le> a"
  let ?j = "exponent_down 1022 a"
  have u: "ulp a = 1 / (2 ^ ?j * 2 ^ 52)"
    using False by (simp add: ulp_def)
  from exponent_down_reaches [of 1022 a] show ?thesis
  proof
    assume "?j = 1022"
    then have "ulp a = 1 / 2 ^ 1074"
      using u by (simp add: power_add [symmetric])
    with a show ?thesis by simp
  next
    assume r: "1 \<le> 2 ^ ?j * a"
    have "1 / 2 ^ ?j \<le> a"
      using r by (simp add: divide_le_eq mult.commute)
    then have "1 / 2 ^ ?j / 2 ^ 52 \<le> a / 2 ^ 52"
      by (simp add: divide_right_mono)
    then have "ulp a \<le> a / 2 ^ 52"
      using u by simp
    then show ?thesis by simp
  qed
qed

lemma round_half_even_near: "\<bar>of_int (round_half_even m) - m\<bar> \<le> 1 / 2"
proof -
  have "of_int \<lfloor>m\<rfloor> \<le> m" "m < of_int \<lfloor>m\<rfloor> + 1"
    by linarith+
  then show ?thesis
    by (auto simp: round_half_even_def Let_def)
qed

lemma round_half_even_nonneg: "0 \<le> m \<Longrightarrow> 0 \<le> round_half_even m"
  by (auto simp: round_half_even_def Let_def)

lemma fl_abs_nonneg: "0 \<le> a \<Longrightarrow> 0 \<le> fl_abs a"
  using ulp_pos [of a] by (simp add: fl_abs_def round_half_even_nonneg less_imp_le)

lemma fl_abs_error:
  assumes "0 \<le> a"
  shows "\<bar>fl_abs a - a\<bar> \<le> a / 2 ^ 53 + 1 / 2 ^ 1075"
proof -
  let ?q = "ulp a"
  have q: "0 < ?q" by (rule ulp_pos)
  have "\<bar>of_int (round_half_even (a / ?q)) - a / ?q\<bar> \<le> 1 / 2"
    by (rule round_half_even_near)
  then have "\<bar>of_int (round_half_even (a / ?q)) - a / ?q\<bar> * ?q \<le> 1 / 2 * ?q"
    using q by (simp add: mult_right_mono less_imp_le)
  moreover have "\<bar>of_int (round_half_even (a / ?q)) - a / ?q\<bar> * ?q = \<bar>fl_abs a - a\<bar>"
  proof -
    have "\<bar>of_int (round_half_even (a / ?q)) - a / ?q\<bar> * ?q
          = \<bar>(of_int (round_half_even (a / ?q)) - a / ?q) * ?q\<bar>"
      using q by (simp add: abs_mult)
    also have "(of_int (round_half_even (a / ?q)) - a / ?q) * ?q = fl_abs a - a"
      using q by (simp add: fl_abs_def algebra_simps)
    finally show ?thesis .
  qed
  ultimately have "\<bar>fl_abs a - a\<bar> \<le> ?q / 2" by simp
  moreover have "?q / 2 \<le> (a / 2 ^ 52 + 1 / 2 ^ 1074) / 2"
    using ulp_le [OF assms] by simp
  moreover have "(a / 2 ^ 52 + 1 / 2 ^ 1074) / 2 = a / 2 ^ 53 + 1 / 2 ^ 1075"
    by simp
  ultimately show ?thesis by linarith
qed

lemma fl_nonneg: "0 \<le> x \<Longrightarrow> 0 \<le> fl x"
  by (simp add: fl_def fl_abs_nonneg)

lemma fl_error: "\<bar>fl x - x\<bar> \<le> \<bar>x\<bar> / 2 ^ 53 + 1 / 2 ^ 1075"
proof (cases "0 \<le> x")
  case True
  with fl_abs_error [of x] show ?thesis by (simp add: fl_def)
next
  case False
  then have "0 \<le> - x" by simp
  from fl_abs_error [OF this] False show ?thesis by (simp add: fl_def)
qed

text \<open>
  The same bound with the size of the argument bounded, as two inequalities: the form in
  which the rounding of a sum or a product enters a linear argument.
\<close>

lemma fl_within:
  assumes "\<bar>x\<bar> \<le> M"
  shows "x - (M * (1 / 2 ^ 53) + 1 / 2 ^ 1075) \<le> fl x" and "fl x \<le> x + (M * (1 / 2 ^ 53) + 1 / 2 ^ 1075)"
proof -
  have "\<bar>x\<bar> / 2 ^ 53 \<le> M * (1 / 2 ^ 53)"
    using assms by simp
  with fl_error [of x] have "\<bar>fl x - x\<bar> \<le> M * (1 / 2 ^ 53) + 1 / 2 ^ 1075"
    by linarith
  then show "x - (M * (1 / 2 ^ 53) + 1 / 2 ^ 1075) \<le> fl x" and "fl x \<le> x + (M * (1 / 2 ^ 53) + 1 / 2 ^ 1075)"
    by linarith+
qed

text \<open>Unfolding equations for rounding a given number.\<close>

lemma exponent_up_eval:
  "exponent_up n x = (if n = 0 \<or> x < 2 then 0 else Suc (exponent_up (n - 1) (x / 2)))"
  by (cases n) auto

lemma exponent_down_eval:
  "exponent_down n x = (if n = 0 \<or> 1 \<le> x then 0 else Suc (exponent_down (n - 1) (2 * x)))"
  by (cases n) auto

lemma round_half_even_eval:
  "round_half_even m =
     (if m - of_int \<lfloor>m\<rfloor> < 1 / 2 then \<lfloor>m\<rfloor>
      else if 1 / 2 < m - of_int \<lfloor>m\<rfloor> then \<lfloor>m\<rfloor> + 1
      else if even \<lfloor>m\<rfloor> then \<lfloor>m\<rfloor> else \<lfloor>m\<rfloor> + 1)"
  by (simp add: round_half_even_def Let_def)

lemmas fl_eval =
  fl_def fl_abs_def ulp_def round_half_even_eval exponent_up_eval exponent_down_eval

section \<open>Numbers and their text\<close>

text \<open>\<^verbatim>\<open>parseInt\<close> reads back what \<^verbatim>\<open>convertToText\<close> wrote.\<close>

lemma less_10_cases:
  "d < 10 \<Longrightarrow> d = 0 \<or> d = 1 \<or> d = 2 \<or> d = 3 \<or> d = 4 \<or> d = 5 \<or> d = 6 \<or> d = 7 \<or> d = 8 \<or> d = (9::nat)"
  by arith

lemma is_digit_digit_char: "d < 10 \<Longrightarrow> is_digit (digit_char d)"
  by (drule less_10_cases) (auto simp: is_digit_def digit_char_def digit_chars_def)

lemma digit_val_digit_char: "d < 10 \<Longrightarrow> digit_val (digit_char d) = d"
  by (drule less_10_cases) (auto simp: digit_val_def digit_char_def digit_chars_def)

lemma digit_not_blank: "is_digit c \<Longrightarrow> \<not> is_blank c"
  by (auto simp: is_digit_def is_blank_def digit_chars_def)

lemma digit_not_sign: "is_digit c \<Longrightarrow> c \<noteq> CHR ''-'' \<and> c \<noteq> CHR ''+''"
  by (auto simp: is_digit_def digit_chars_def)

lemma minus_not_blank: "\<not> is_blank (CHR ''-'')"
  by (simp add: is_blank_def)

lemma nat_to_text_digits: "\<forall>c \<in> set (nat_to_text n). is_digit c"
proof (induction n rule: nat_to_text.induct)
  case (1 n)
  show ?case
  proof (cases "n < 10")
    case True
    then show ?thesis by (subst nat_to_text.simps) (simp add: is_digit_digit_char)
  next
    case False
    with 1 show ?thesis by (subst nat_to_text.simps) (simp add: is_digit_digit_char)
  qed
qed

lemma nat_to_text_not_Nil: "nat_to_text n \<noteq> []"
  by (subst nat_to_text.simps) simp

lemma digits_value_append:
  "digits_value acc (xs @ ys) = digits_value (digits_value acc xs) ys"
  by (induction xs arbitrary: acc) simp_all

lemma digits_value_nat_to_text: "digits_value 0 (nat_to_text n) = n"
proof (induction n rule: nat_to_text.induct)
  case (1 n)
  show ?case
  proof (cases "n < 10")
    case True
    then show ?thesis by (subst nat_to_text.simps) (simp add: digit_val_digit_char)
  next
    case False
    with 1 have "digits_value 0 (nat_to_text (n div 10)) = n div 10" by simp
    with False show ?thesis
      by (subst nat_to_text.simps) (simp add: digits_value_append digit_val_digit_char)
  qed
qed

lemma parse_digits_nat_to_text: "parse_digits (nat_to_text n) = Some n"
proof -
  have tw: "takeWhile is_digit (nat_to_text n) = nat_to_text n"
    using nat_to_text_digits [of n] by simp
  show ?thesis
    unfolding parse_digits_def Let_def tw
    by (simp add: nat_to_text_not_Nil digits_value_nat_to_text)
qed

lemma parseInt_convertToText: "parseInt (convertToText i) = Some i"
proof (cases "i < 0")
  case True
  then show ?thesis
    by (simp add: parseInt_def convertToText_def minus_not_blank parse_digits_nat_to_text)
next
  case False
  obtain c cs where cs: "nat_to_text (nat i) = c # cs"
    using nat_to_text_not_Nil [of "nat i"] by (cases "nat_to_text (nat i)") auto
  have "is_digit c"
    using nat_to_text_digits [of "nat i"] cs by simp
  then have "\<not> is_blank c" "c \<noteq> CHR ''-''" "c \<noteq> CHR ''+''"
    using digit_not_blank digit_not_sign by blast+
  moreover have "parse_digits (c # cs) = Some (nat i)"
    using parse_digits_nat_to_text [of "nat i"] cs by simp
  ultimately show ?thesis
    using False cs by (simp add: parseInt_def convertToText_def)
qed

lemmas text_simps =
  convertToText_def nat_to_text.simps digit_char_def digit_chars_def
  parseInt_def parse_digits_def is_blank_def is_digit_def digit_val_def slice1_def

section \<open>Stored recipes and queued Plays\<close>

lemmas create_simps =
  createFlexFX_def create2PartFlexFX_def create3PartFlexFX_def createDoubleFlexFX_def
  storeFlexFX_def splice_array_def indexOf_found_def builtInId_at_def builtInId_def
  setPartA_def setPartB_def silentPartB_def setPartC_def setDefaults_def new_FlexFX_def
  goodFreqRatio_def goodVolRatio_def goodTimeRatio_def initial_globals_def Let_def

lemma last_storeFlexFX:
  "last (flexFXList (storeFlexFX builtIn target s)) =
     (if builtIn < 1000 then target\<lparr> id_fx := builtInId_at builtIn \<rparr> else target)"
  by (simp add: storeFlexFX_def Let_def)

lemma set_splice: "set (splice_array a b xs) \<subseteq> set xs"
proof -
  have "set (take m xs @ drop n xs) \<subseteq> set xs" for m n
    using set_take_subset [of m xs] set_drop_subset [of n xs] by auto
  then show ?thesis by (simp add: splice_array_def del: set_append)
qed

text \<open>A clamped time ratio lies between \<open>0\<close> and a budget that is not negative, and the
  budgets the setters compute are not negative.\<close>

lemma goodTimeRatio_le: "goodTimeRatio t left \<le> left"
  by (simp add: goodTimeRatio_def)

lemma goodTimeRatio_nonneg: "0 \<le> left \<Longrightarrow> 0 \<le> goodTimeRatio t left"
  by (simp add: goodTimeRatio_def)

lemma budget_nonneg: "0 \<le> fl (left - goodTimeRatio t left)"
  using goodTimeRatio_le [of t left] by (simp add: fl_nonneg)

lemma setters_ratios_nonneg:
  "ratios_nonneg (setPartA f0 v0 w a e f1 v1 t (new_FlexFX ident))"
  "ratios_nonneg (setPartB w2 a2 e2 f2 v2 t2 (setPartA f0 v0 w a e f1 v1 t r))"
  "ratios_nonneg (setPartC w3 a3 e3 f3 v3 t3
     (setPartB w2 a2 e2 f2 v2 t2 (setPartA f0 v0 w a e f1 v1 t r)))"
  "ratios_nonneg (setPartC w3 a3 e3 f3 v3 t3
     (silentPartB f2 v2 t2 (setPartA f0 v0 w a e f1 v1 t r)))"
  by (simp_all add: ratios_nonneg_def setPartA_def setPartB_def silentPartB_def setPartC_def
        new_FlexFX_def goodTimeRatio_nonneg budget_nonneg)

lemma setDefaults_ratios_nonneg: "ratios_nonneg (setDefaults p v d r) = ratios_nonneg r"
  by (simp add: ratios_nonneg_def setDefaults_def)

lemma storeFlexFX_ok:
  assumes "globals_ok s" "flags_consistent target" "ratios_nonneg target"
  shows "globals_ok (storeFlexFX builtIn target s)"
proof -
  have stored: "flags_consistent (target\<lparr> id_fx := x \<rparr>)" "ratios_nonneg (target\<lparr> id_fx := x \<rparr>)" for x
    using assms(2,3) by (simp_all add: flags_consistent_def ratios_nonneg_def)
  have "\<forall>r \<in> set (splice_array a b (flexFXList s)). flags_consistent r \<and> ratios_nonneg r" for a b
    using assms(1) set_splice [of a b "flexFXList s"] by (auto simp: globals_ok_def)
  with stored assms show ?thesis
    by (simp add: globals_ok_def storeFlexFX_def Let_def)
qed

lemma compilePlay_ok:
  assumes "globals_ok s" "flags_consistent r"
  shows "globals_ok (compilePlay r f v m s)"
  using assms by (auto simp: globals_ok_def compilePlay_def Let_def flags_consistent_def)

lemma activatePlayer_ok: "globals_ok s \<Longrightarrow> globals_ok (fst (activatePlayer s))"
  by (simp add: globals_ok_def activatePlayer_def)

lemma playFlexFX_ok:
  assumes "globals_ok s"
  shows "globals_ok (fst (playFlexFX ident pitch volume dur background s))"
proof (cases "find (\<lambda>i. id_fx i = Some ident) (flexFXList s)")
  case None
  with assms show ?thesis by (simp add: playFlexFX_def)
next
  case (Some target)
  then have "target \<in> set (flexFXList s)"
    by (auto simp: find_Some_iff)
  with assms have "flags_consistent target"
    by (simp add: globals_ok_def)
  with assms have ok: "globals_ok (fst (activatePlayer (compilePlay target pitch volume dur s)))"
    by (simp add: compilePlay_ok activatePlayer_ok)
  obtain s2 acts where "activatePlayer (compilePlay target pitch volume dur s) = (s2, acts)"
    by (cases "activatePlayer (compilePlay target pitch volume dur s)") auto
  with Some ok show ?thesis
    by (simp add: playFlexFX_def)
qed

lemma playBuiltInFlexFX_ok:
  assumes "globals_ok s"
  shows "globals_ok (fst (playBuiltInFlexFX choice pitch volume dur background s))"
proof (cases "builtInId_at choice")
  case (Some name)
  with assms show ?thesis by (simp add: playBuiltInFlexFX_def playFlexFX_ok)
next
  case no_name: None
  show ?thesis
  proof (cases "find (\<lambda>i. id_fx i = None) (flexFXList s)")
    case None
    with assms no_name show ?thesis by (simp add: playBuiltInFlexFX_def)
  next
    case (Some target)
    then have "target \<in> set (flexFXList s)"
      by (auto simp: find_Some_iff)
    with assms have "flags_consistent target"
      by (simp add: globals_ok_def)
    with assms have ok: "globals_ok (fst (activatePlayer (compilePlay target pitch volume dur s)))"
      by (simp add: compilePlay_ok activatePlayer_ok)
    obtain s2 acts where "activatePlayer (compilePlay target pitch volume dur s) = (s2, acts)"
      by (cases "activatePlayer (compilePlay target pitch volume dur s)") auto
    with Some no_name ok show ?thesis
      by (simp add: playBuiltInFlexFX_def)
  qed
qed

lemma pop_all_Nil: "pop_all xs = []"
  by (induction xs rule: pop_all.induct) simp_all

lemma player_loop_done:
  "playList s = [] \<or> playerStopped s \<Longrightarrow> player_loop s = (s, [], Returned)"
  by (subst player_loop.simps) auto

lemma player_loop_turn:
  "playList s \<noteq> [] \<Longrightarrow> \<not> playerStopped s \<Longrightarrow>
   player_loop s =
     (case player_turn s of
        (s1, acts, written, TypeError) \<Rightarrow> (s1, acts, TypeError)
      | (s1, acts, written, Returned) \<Rightarrow>
          (case player_loop s1 of (s2, acts2, c) \<Rightarrow> (s2, acts @ acts2, c)))"
  by (subst player_loop.simps) simp

lemma player_turn_ok:
  "globals_ok s \<Longrightarrow> globals_ok (fst (player_turn s))"
  by (auto simp: globals_ok_def player_turn_def Let_def split: list.splits)

lemma player_loop_ok: "globals_ok s \<Longrightarrow> globals_ok (fst (player_loop s))"
proof (induction s rule: player_loop.induct)
  case (1 s)
  show ?case
  proof (cases "playList s \<noteq> [] \<and> \<not> playerStopped s")
    case False
    with 1(2) show ?thesis by (auto simp: player_loop_done)
  next
    case True
    obtain s1 acts written c where t: "player_turn s = (s1, acts, written, c)"
      by (cases "player_turn s") auto
    have ok1: "globals_ok s1"
      using player_turn_ok [OF 1(2)] t by simp
    show ?thesis
    proof (cases c)
      case TypeError
      with True t ok1 show ?thesis by (simp add: player_loop_turn)
    next
      case Returned
      with 1(1) True t ok1
      have "globals_ok (fst (player_loop s1))"
        by simp
      with True t Returned show ?thesis
        by (auto simp: player_loop_turn split: prod.splits)
    qed
  qed
qed

lemma player_ok: "globals_ok s \<Longrightarrow> globals_ok (fst (player s))"
  using player_loop_ok [of s]
  by (auto simp: player_def globals_ok_def split: prod.splits completion.splits)

lemma fst_case_prod_keep: "fst (case p of (a, b) \<Rightarrow> (a, f a b)) = fst p"
  by (cases p) simp

lemma reachable_ok: "reachable s \<Longrightarrow> globals_ok s"
proof (induction rule: reachable.induct)
  case initial
  show ?case by (simp add: globals_ok_def initial_globals_def)
next
  case (create s ident sp sv w a e ep ev pitch volume dur builtIn)
  then show ?case
    unfolding createFlexFX_def Let_def
    by (intro storeFlexFX_ok)
       (simp_all add: setDefaults_ratios_nonneg setters_ratios_nonneg,
        simp add: flags_consistent_def setDefaults_def setPartA_def)
next
  case (create2 s)
  then show ?case
    unfolding create2PartFlexFX_def Let_def
    by (intro storeFlexFX_ok)
       (simp_all add: setDefaults_ratios_nonneg setters_ratios_nonneg,
        simp add: flags_consistent_def setDefaults_def setPartA_def setPartB_def)
next
  case (create3 s)
  then show ?case
    unfolding create3PartFlexFX_def Let_def
    by (intro storeFlexFX_ok)
       (simp_all add: setDefaults_ratios_nonneg setters_ratios_nonneg,
        simp add: flags_consistent_def setDefaults_def setPartA_def setPartB_def setPartC_def)
next
  case (createDouble s)
  then show ?case
    unfolding createDoubleFlexFX_def Let_def
    by (intro storeFlexFX_ok)
       (simp_all add: setDefaults_ratios_nonneg setters_ratios_nonneg,
        simp add: flags_consistent_def setDefaults_def setPartA_def silentPartB_def setPartC_def)
next
  case (play s)
  then show ?case by (simp add: playFlexFX_ok)
next
  case (play_built_in s)
  then show ?case by (simp add: playBuiltInFlexFX_ok)
next
  case (silence s ms)
  then have "globals_ok (s\<lparr> playList := playList s @ [\<lparr> parts = [Text (CHR ''s'' # convertToText \<lfloor>ms\<rfloor>)] \<rparr>] \<rparr>)"
    by (simp add: globals_ok_def)
  then show ?case
    by (simp add: performSilence_def Let_def activatePlayer_ok)
next
  case (await_start s)
  then have "globals_ok (s\<lparr> playerStopped := False \<rparr>)" by (simp add: globals_ok_def)
  then have "globals_ok (fst (activatePlayer (s\<lparr> playerStopped := False \<rparr>)))" by (rule activatePlayer_ok)
  then show ?case
    by (simp add: awaitPlayStart_def fst_case_prod_keep)
next
  case (await_all s)
  then have "globals_ok (s\<lparr> playerStopped := False \<rparr>)" by (simp add: globals_ok_def)
  then have "globals_ok (fst (activatePlayer (s\<lparr> playerStopped := False \<rparr>)))" by (rule activatePlayer_ok)
  then show ?case
    by (simp add: awaitAllFinished_def fst_case_prod_keep)
next
  case (stop s)
  then show ?case by (simp add: stopPlaying_def globals_ok_def)
next
  case (start s)
  then have "globals_ok (s\<lparr> playerStopped := False \<rparr>)" by (simp add: globals_ok_def)
  then show ?case by (simp add: startPlaying_def activatePlayer_ok)
next
  case (delete s)
  then show ?case by (simp add: deletePlaylist_def globals_ok_def pop_all_Nil)
next
  case (worker s)
  then show ?case by (simp add: player_ok)
qed

lemma segment_ms_gap: "segment_ms (Text (c # convertToText n)) = Some (real_of_int n)"
  by (simp add: segment_ms_def encoded_ms_def slice1_def parseInt_convertToText)

lemma stored_flags: "reachable s \<Longrightarrow> r \<in> set (flexFXList s) \<Longrightarrow> flags_consistent r"
  using reachable_ok [of s] by (simp add: globals_ok_def)

lemma stored_ratios_nonneg: "reachable s \<Longrightarrow> r \<in> set (flexFXList s) \<Longrightarrow> ratios_nonneg r"
  using reachable_ok [of s] by (simp add: globals_ok_def)

lemma segment_ms_sound: "segment_ms (SoundEffect w f0 f1 v0 v1 ms e a) = Some ms"
  by (simp add: segment_ms_def)

lemma total_ms_compilePlay:
  assumes "playPartA r" "playPartB r \<longrightarrow> usesPoint2 r" "playPartC r \<longrightarrow> usesPoint3 r" "ms \<noteq> 0"
  shows "total_ms (parts (last (playList (compilePlay r freq vol ms s)))) =
           Some (fl (ms * timeRatioA r)
                 + ((if playPartB r then fl (ms * timeRatioB r)
                     else if skipPartB r then real_of_int \<lfloor>fl (ms * timeRatioB r)\<rfloor> else 0)
                    + (if playPartC r then fl (ms * timeRatioC r) else 0)))"
  using assms
  by (simp add: compilePlay_def Let_def segment_ms_gap segment_ms_sound)

text \<open>
  What \<^verbatim>\<open>storeFlexFX\<close> keeps of the registry: all of it when no stored recipe has the
  target's id, and also when the first match is the recipe at index 0, which
  \<^verbatim>\<open>indexOf(..., 1)\<close> does not see; everything but the match when the first match is
  further on.
\<close>

lemma find_pos_None: "find_pos P xs = None \<longleftrightarrow> (\<forall>x \<in> set xs. \<not> P x)"
  by (induction xs) auto

lemma find_pos_less: "find_pos P xs = Some k \<Longrightarrow> k < length xs"
  by (induction xs arbitrary: k) (auto split: if_splits)




text \<open>What the example registries hold.\<close>

lemma ting_stored:
  "flexFXList ting_registry =
     [\<lparr> id_fx = Some ''ting'', playPartA = True, waveA = 0, attackA = 0, effectA = 0,
        timeRatioA = 1, skipPartB = False,
        playPartB = False, waveB = 0, attackB = 0, effectB = 0, timeRatioB = 0,
        playPartC = False, waveC = 0, attackC = 0, effectC = 0, timeRatioC = 0,
        freqRatio0 = 1, volRatio0 = 1, freqRatio1 = 8106479329266893 / 9007199254740992,
        volRatio1 = 3602879701896397 / 4503599627370496, usesPoint2 = False, freqRatio2 = 0,
        volRatio2 = 0, usesPoint3 = False, freqRatio3 = 0, volRatio3 = 0,
        defaultFreq = 800, defaultVol = 200, defaultMs = 400 \<rparr>]"
  unfolding ting_registry_def createFlexFX_def Let_def
  by (simp add: create_simps fl_eval)

lemma violin_stored:
  "flexFXList violin_registry =
     [\<lparr> id_fx = Some ''violin'', playPartA = True, waveA = 1, attackA = 2, effectA = 0,
        timeRatioA = 3602879701896397 / 36028797018963968, skipPartB = False,
        playPartB = True, waveB = 1, attackB = 0, effectB = 0,
        timeRatioB = 7656119366529843 / 9007199254740992,
        playPartC = True, waveC = 1, attackC = 0, effectC = 0,
        timeRatioC = 3602879701896397 / 72057594037927936,
        freqRatio0 = 5764607523034235 / 576460752303423488, volRatio0 = 1, freqRatio1 = 1,
        volRatio1 = 3 / 4, usesPoint2 = True, freqRatio2 = 1, volRatio2 = 3 / 4,
        usesPoint3 = True, freqRatio3 = 3602879701896397 / 36028797018963968, volRatio3 = 1,
        defaultFreq = 440, defaultVol = 200, defaultMs = 500 \<rparr>]"
  unfolding violin_registry_def create3PartFlexFX_def Let_def
  by (simp add: create_simps fl_eval)

lemma siren_stored:
  "flexFXList siren_registry =
     [\<lparr> id_fx = Some ''siren'', playPartA = True, waveA = 1, attackA = 0, effectA = 0,
        timeRatioA = 8106479329266893 / 18014398509481984, skipPartB = True,
        playPartB = False, waveB = 0, attackB = 0, effectB = 0,
        timeRatioB = 3602879701896397 / 36028797018963968,
        playPartC = True, waveC = 1, attackC = 0, effectC = 0,
        timeRatioC = 8106479329266893 / 18014398509481984,
        freqRatio0 = 4278419646001971 / 4503599627370496,
        volRatio0 = 3602879701896397 / 4503599627370496, freqRatio1 = 1, volRatio1 = 1,
        usesPoint2 = True, freqRatio2 = 3152519739159347 / 4503599627370496, volRatio2 = 1,
        usesPoint3 = True, freqRatio3 = 3 / 4,
        volRatio3 = 3602879701896397 / 4503599627370496,
        defaultFreq = 800, defaultVol = 200, defaultMs = 1000 \<rparr>]"
  unfolding siren_registry_def createDoubleFlexFX_def Let_def
  by (simp add: create_simps fl_eval)

lemma slow_end_stored:
  "flexFXList slow_end_registry =
     [\<lparr> id_fx = Some ''slow-end'', playPartA = True, waveA = 0, attackA = 0, effectA = 0,
        timeRatioA = 5764607523034235 / 576460752303423488, skipPartB = False,
        playPartB = True, waveB = 0, attackB = 0, effectB = 0,
        timeRatioB = 1080863910568919 / 18014398509481984,
        playPartC = True, waveC = 0, attackC = 0, effectC = 0,
        timeRatioC = 4188347653454561 / 4503599627370496, freqRatio0 = 1, volRatio0 = 1,
        freqRatio1 = 1, volRatio1 = 1, usesPoint2 = True, freqRatio2 = 1, volRatio2 = 1,
        usesPoint3 = True, freqRatio3 = 1, volRatio3 = 1,
        defaultFreq = 800, defaultVol = 200, defaultMs = 400 \<rparr>]"
  unfolding slow_end_registry_def create3PartFlexFX_def Let_def
  by (simp add: create_simps fl_eval)

lemma long_middle_stored:
  "flexFXList long_middle_registry =
     [\<lparr> id_fx = Some ''long-middle'', playPartA = True, waveA = 0, attackA = 0, effectA = 0,
        timeRatioA = 3242591731706757 / 36028797018963968, skipPartB = False,
        playPartB = True, waveB = 0, attackB = 0, effectB = 0,
        timeRatioB = 3332663724254167 / 4503599627370496,
        playPartC = True, waveC = 0, attackC = 0, effectC = 0,
        timeRatioC = 6124895493223875 / 36028797018963968, freqRatio0 = 1, volRatio0 = 1,
        freqRatio1 = 1, volRatio1 = 1, usesPoint2 = True, freqRatio2 = 1, volRatio2 = 1,
        usesPoint3 = True, freqRatio3 = 1, volRatio3 = 1,
        defaultFreq = 800, defaultVol = 200, defaultMs = 400 \<rparr>]"
  unfolding long_middle_registry_def create3PartFlexFX_def Let_def
  by (simp add: create_simps fl_eval)

lemma short_gap_stored:
  "flexFXList short_gap_registry =
     [\<lparr> id_fx = Some ''short-gap'', playPartA = True, waveA = 0, attackA = 0, effectA = 0,
        timeRatioA = 8106479329266893 / 18014398509481984, skipPartB = True,
        playPartB = False, waveB = 0, attackB = 0, effectB = 0,
        timeRatioB = 5224175567749775 / 18014398509481984,
        playPartC = True, waveC = 0, attackC = 0, effectC = 0,
        timeRatioC = 1170935903116329 / 4503599627370496, freqRatio0 = 1, volRatio0 = 1,
        freqRatio1 = 1, volRatio1 = 1, usesPoint2 = True, freqRatio2 = 1, volRatio2 = 1,
        usesPoint3 = True, freqRatio3 = 1, volRatio3 = 1,
        defaultFreq = 800, defaultVol = 200, defaultMs = 400 \<rparr>]"
  unfolding short_gap_registry_def createDoubleFlexFX_def Let_def
  by (simp add: create_simps fl_eval)

lemma violin_reachable: "reachable violin_registry"
  unfolding violin_registry_def by (rule reachable.create3 [OF reachable.initial])

lemma siren_reachable: "reachable siren_registry"
  unfolding siren_registry_def by (rule reachable.createDouble [OF reachable.initial])

lemma slow_end_reachable: "reachable slow_end_registry"
  unfolding slow_end_registry_def by (rule reachable.create3 [OF reachable.initial])

lemma long_middle_reachable: "reachable long_middle_registry"
  unfolding long_middle_registry_def by (rule reachable.create3 [OF reachable.initial])

lemma short_gap_reachable: "reachable short_gap_registry"
  unfolding short_gap_registry_def by (rule reachable.createDouble [OF reachable.initial])

text \<open>
  The time ratios that \<^verbatim>\<open>create3PartFlexFX\<close> and \<^verbatim>\<open>createDoubleFlexFX\<close> store for the
  percentages \<open>tA\<close> and \<open>tB\<close>, and those that \<^verbatim>\<open>create2PartFlexFX\<close> stores for \<open>tA\<close>: each
  is near the ratio asked for, and they sum to \<open>1\<close> up to a few roundings. The second
  argument of \<^verbatim>\<open>create2PartFlexFX\<close> is \<^verbatim>\<open>100 - timePercentA / 100\<close>, at least 98, so its part B
  always gets the whole budget.
\<close>

lemma three_part_ratios:
  fixes tA tB :: real
  assumes "0 \<le> tA" "0 \<le> tB" "tA + tB \<le> 100"
  defines "A \<equiv> goodTimeRatio (fl (tA / 100)) 1"
  defines "B \<equiv> goodTimeRatio (fl (tB / 100)) (fl (1 - A))"
  defines "C \<equiv> goodTimeRatio (fl (fl (fl (100 - tA) - tB) / 100)) (fl (fl (1 - A) - B))"
  shows "0 \<le> A \<and> 0 \<le> B \<and> 0 \<le> C
         \<and> \<bar>A - tA / 100\<bar> \<le> 1 / 2 ^ 50 \<and> \<bar>B - tB / 100\<bar> \<le> 1 / 2 ^ 50
         \<and> \<bar>C - (100 - tA - tB) / 100\<bar> \<le> 1 / 2 ^ 50
         \<and> \<bar>A + B + C - 1\<bar> \<le> 1 / 2 ^ 50"
proof -
  define u :: real where "u = 1 / 2 ^ 53"
  define h :: real where "h = 1 / 2 ^ 1075"
  have h: "0 \<le> h" "h \<le> u" "0 < u" "u \<le> 1 / 1000" "h \<le> u / 1000"
    by (simp_all add: h_def u_def)
  have goal: "1 / 2 ^ 50 = 8 * u"
    by (simp add: u_def)
  note w = fl_within [folded h_def u_def]
  define a' where "a' = fl (tA / 100)"
  define b1 where "b1 = fl (1 - A)"
  define b' where "b' = fl (tB / 100)"
  define b2 where "b2 = fl (b1 - B)"
  define x1 where "x1 = fl (100 - tA)"
  define x2 where "x2 = fl (x1 - tB)"
  define c' where "c' = fl (x2 / 100)"
  have a0: "0 \<le> a'" using assms(1) by (simp add: a'_def fl_nonneg)
  have ae: "tA / 100 - (1 * u + h) \<le> a'" "a' \<le> tA / 100 + (1 * u + h)"
    using w [of "tA / 100" 1] assms by (simp_all add: a'_def)
  have A: "A = min a' 1" using a0 by (simp add: A_def goodTimeRatio_def a'_def)
  have A01: "0 \<le> A" "A \<le> 1" using a0 by (simp_all add: A)
  have b10: "0 \<le> b1" using A01 by (simp add: b1_def fl_nonneg)
  have b1e: "1 - A - (1 * u + h) \<le> b1" "b1 \<le> 1 - A + (1 * u + h)"
    using w [of "1 - A" 1] A01 by (simp_all add: b1_def)
  have b0: "0 \<le> b'" using assms(2) by (simp add: b'_def fl_nonneg)
  have be: "tB / 100 - (1 * u + h) \<le> b'" "b' \<le> tB / 100 + (1 * u + h)"
    using w [of "tB / 100" 1] assms by (simp_all add: b'_def)
  have B: "B = min b' b1" using b0 by (simp add: B_def goodTimeRatio_def b'_def b1_def)
  have B0: "0 \<le> B" "B \<le> b1" using b0 b10 by (simp_all add: B)
  have b20: "0 \<le> b2" using B0 by (simp add: b2_def fl_nonneg)
  have "b1 \<le> 2" using b1e A01 h by linarith
  then have b2e: "b1 - B - (2 * u + h) \<le> b2" "b2 \<le> b1 - B + (2 * u + h)"
    using w [of "b1 - B" 2] B0 by (simp_all add: b2_def)
  have x1e: "100 - tA - (100 * u + h) \<le> x1" "x1 \<le> 100 - tA + (100 * u + h)"
    using w [of "100 - tA" 100] assms by (simp_all add: x1_def)
  have "\<bar>x1 - tB\<bar> \<le> 101" using x1e assms h by linarith
  from w [OF this]
  have x2e: "x1 - tB - (101 * u + h) \<le> x2" "x2 \<le> x1 - tB + (101 * u + h)"
    by (simp_all add: x2_def)
  have "\<bar>x2 / 100\<bar> \<le> 2" using x2e x1e assms h by linarith
  from w [OF this]
  have ce: "x2 / 100 - (2 * u + h) \<le> c'" "c' \<le> x2 / 100 + (2 * u + h)"
    by (simp_all add: c'_def)
  have C: "C = min (max c' 0) b2"
    by (simp add: C_def goodTimeRatio_def c'_def x2_def x1_def b2_def b1_def)
  have C0: "0 \<le> C" using b20 by (simp add: C)
  define t3 where "t3 = (100 - tA - tB) / 100"
  have t3: "t3 = 1 - tA / 100 - tB / 100"
    by (simp add: t3_def field_simps)
  have Ab: "tA / 100 - (u + h) \<le> A" "A \<le> tA / 100 + (u + h)"
    using A ae assms(1-3) h by linarith+
  have Bb: "tB / 100 - (2 * u + 2 * h) \<le> B" "B \<le> tB / 100 + (u + h)"
    using B be b1e Ab assms(1-3) h by linarith+
  have c'b: "t3 - (5 * u + 2 * h) \<le> c'" "c' \<le> t3 + (5 * u + 2 * h)"
    using ce x2e x1e h t3 by linarith+
  have b2b: "t3 - (5 * u + 4 * h) \<le> b2"
    using b2e b1e Ab Bb h t3 by linarith
  have Cc: "C \<le> b2" "C \<le> max c' 0" "min c' b2 \<le> C"
    using C b20 by linarith+
  have Cb: "t3 - (5 * u + 4 * h) \<le> C" "C \<le> t3 + (5 * u + 2 * h)"
    using Cc c'b b2b assms(1-3) h t3 by linarith+
  have Ae: "\<bar>A - tA / 100\<bar> \<le> 8 * u"
    using Ab h by linarith
  have Be: "\<bar>B - tB / 100\<bar> \<le> 8 * u"
    using Bb h by linarith
  have Ce: "\<bar>C - t3\<bar> \<le> 8 * u"
    using Cb h by linarith
  have Shi: "A + B + C \<le> 1 + (3 * u + 2 * h)"
    using Cc(1) b2e b1e by linarith
  have Slo: "1 - (7 * u + 7 * h) \<le> A + B + C"
  proof (cases "B = b1")
    case True
    then show ?thesis using b1e C0 h by linarith
  next
    case False
    then have "tB / 100 - (u + h) \<le> B"
      using B be by linarith
    then show ?thesis using Ab Cb h t3 by linarith
  qed
  have Se: "\<bar>A + B + C - 1\<bar> \<le> 8 * u"
    using Shi Slo h by linarith
  from A01 B0 C0 Ae Be Ce [unfolded t3_def] Se show ?thesis
    unfolding goal by blast
qed

lemma two_part_ratios:
  fixes tA :: real
  assumes "0 \<le> tA" "tA \<le> 100"
  defines "A \<equiv> goodTimeRatio (fl (tA / 100)) 1"
  defines "B \<equiv> goodTimeRatio (fl (100 - fl (tA / 100))) (fl (1 - A))"
  shows "0 \<le> A \<and> 0 \<le> B \<and> B = fl (1 - A)
         \<and> \<bar>A - tA / 100\<bar> \<le> 1 / 2 ^ 50 \<and> \<bar>B - (1 - tA / 100)\<bar> \<le> 1 / 2 ^ 50
         \<and> \<bar>A + B - 1\<bar> \<le> 1 / 2 ^ 50"
proof -
  define u :: real where "u = 1 / 2 ^ 53"
  define h :: real where "h = 1 / 2 ^ 1075"
  have h: "0 \<le> h" "h \<le> u" "0 < u" "u \<le> 1 / 1000"
    by (simp_all add: h_def u_def)
  have goal: "1 / 2 ^ 50 = 8 * u"
    by (simp add: u_def)
  note w = fl_within [folded h_def u_def]
  define a' where "a' = fl (tA / 100)"
  define b1 where "b1 = fl (1 - A)"
  define t' where "t' = fl (100 - a')"
  have a0: "0 \<le> a'" using assms(1) by (simp add: a'_def fl_nonneg)
  have ae: "tA / 100 - (1 * u + h) \<le> a'" "a' \<le> tA / 100 + (1 * u + h)"
    using w [of "tA / 100" 1] assms by (simp_all add: a'_def)
  have A: "A = min a' 1" using a0 by (simp add: A_def goodTimeRatio_def a'_def)
  have A01: "0 \<le> A" "A \<le> 1" using a0 by (simp_all add: A)
  have Ab: "tA / 100 - (u + h) \<le> A" "A \<le> tA / 100 + (u + h)"
    using A ae assms(1,2) h by linarith+
  have b10: "0 \<le> b1" using A01 by (simp add: b1_def fl_nonneg)
  have b1e: "1 - A - (1 * u + h) \<le> b1" "b1 \<le> 1 - A + (1 * u + h)"
    using w [of "1 - A" 1] A01 by (simp_all add: b1_def)
  have "\<bar>100 - a'\<bar> \<le> 100" using a0 ae assms(1,2) h by linarith
  from w [OF this] have "100 - a' - (100 * u + h) \<le> t'"
    by (simp add: t'_def)
  then have "b1 \<le> t'" "0 \<le> t'"
    using ae b1e A01 assms(1,2) h by linarith+
  then have B: "B = b1"
    by (simp add: B_def goodTimeRatio_def t'_def a'_def b1_def)
  have Ae: "\<bar>A - tA / 100\<bar> \<le> 8 * u"
    using Ab h by linarith
  have Be: "\<bar>B - (1 - tA / 100)\<bar> \<le> 8 * u"
    using B b1e Ab h by linarith
  have Se: "\<bar>A + B - 1\<bar> \<le> 8 * u"
    using B b1e h by linarith
  from A01 b10 B Ae Be Se show ?thesis
    unfolding goal b1_def by blast
qed

section \<open>The worker's run\<close>

lemma player_turn_Cons:
  assumes "playList s = p # rest" "parts p \<noteq> []"
  shows "\<exists>s1 w. player_turn s = (s1, actions_for p, w, Returned)
           \<and> playList s1 = rest \<and> flexFXList s1 = flexFXList s
           \<and> playerStopped s1 = playerStopped s \<and> playerActive s1 = playerActive s"
  using assms
  by (cases "parts p") (auto simp: player_turn_def actions_for_def Let_def)

lemma player_loop_all:
  assumes "\<not> playerStopped s" "\<forall>p \<in> set (playList s). parts p \<noteq> []"
  shows "\<exists>s'. player_loop s = (s', concat (map actions_for (playList s)), Returned)
           \<and> playList s' = [] \<and> flexFXList s' = flexFXList s
           \<and> playerStopped s' = playerStopped s \<and> playerActive s' = playerActive s"
  using assms
proof (induction "playList s" arbitrary: s)
  case Nil
  then show ?case by (simp add: player_loop_done)
next
  case (Cons p rest)
  from Cons(2) have pl: "playList s = p # rest" by simp
  with Cons(4) have "parts p \<noteq> []" by simp
  with pl obtain s1 w where t: "player_turn s = (s1, actions_for p, w, Returned)"
    and s1: "playList s1 = rest" "flexFXList s1 = flexFXList s"
      "playerStopped s1 = playerStopped s" "playerActive s1 = playerActive s"
    using player_turn_Cons by blast
  have "\<exists>s'. player_loop s1 = (s', concat (map actions_for (playList s1)), Returned)
           \<and> playList s' = [] \<and> flexFXList s' = flexFXList s1
           \<and> playerStopped s' = playerStopped s1 \<and> playerActive s' = playerActive s1"
    using Cons(1) [of s1] s1 Cons(3,4) pl by simp
  then obtain s' where l: "player_loop s1 = (s', concat (map actions_for rest), Returned)"
    and s': "playList s' = []" "flexFXList s' = flexFXList s1"
      "playerStopped s' = playerStopped s1" "playerActive s' = playerActive s1"
    using s1 by auto
  have "player_loop s = (s', actions_for p @ concat (map actions_for rest), Returned)"
    using pl Cons(3) t l by (simp add: player_loop_turn)
  with pl s1 s' show ?case by simp
qed

lemma player_loop_no_ALLPLAYED_turn:
  "RaiseEvent ALLPLAYED \<notin> set (play_parts ps)"
  by (induction ps) auto


lemma player_turn_no_ALLPLAYED:
  "RaiseEvent ALLPLAYED \<notin> set (fst (snd (player_turn s)))"
  by (auto simp: player_turn_def Let_def player_loop_no_ALLPLAYED_turn split: list.splits)

lemma player_loop_no_ALLPLAYED:
  "RaiseEvent ALLPLAYED \<notin> set (fst (snd (player_loop s)))"
proof (induction s rule: player_loop.induct)
  case (1 s)
  show ?case
  proof (cases "playList s \<noteq> [] \<and> \<not> playerStopped s")
    case False
    then show ?thesis by (auto simp: player_loop_done)
  next
    case True
    obtain s1 acts written c where t: "player_turn s = (s1, acts, written, c)"
      by (cases "player_turn s") auto
    have a: "RaiseEvent ALLPLAYED \<notin> set acts"
      using player_turn_no_ALLPLAYED [of s] t by simp
    show ?thesis
    proof (cases c)
      case TypeError
      with True t a show ?thesis by (simp add: player_loop_turn)
    next
      case Returned
      with 1 True t have "RaiseEvent ALLPLAYED \<notin> set (fst (snd (player_loop s1)))"
        by simp
      with True t Returned a show ?thesis
        by (auto simp: player_loop_turn split: prod.splits)
    qed
  qed
qed

lemma ALLPLAYED_only_when_empty:
  "RaiseEvent ALLPLAYED \<in> set (fst (snd (player t))) \<Longrightarrow> playList (fst (player t)) = []"
  using player_loop_no_ALLPLAYED [of t]
  by (auto simp: player_def split: prod.splits completion.splits if_splits)

lemma activatePlayer_eq:
  "activatePlayer s =
     (s\<lparr> playerActive := (playerActive s \<or> \<not> playerStopped s) \<rparr>,
      if playerActive s \<or> playerStopped s then [] else [InBackground])"
  by (cases s) (auto simp: activatePlayer_def)

lemma playerPlaying_storeFlexFX: "playerPlaying (storeFlexFX b t s) = playerPlaying s"
  by (simp add: storeFlexFX_def Let_def)

lemma playerPlaying_compilePlay: "playerPlaying (compilePlay r f v m s) = playerPlaying s"
  by (simp add: compilePlay_def Let_def)

lemma playerPlaying_activatePlayer: "playerPlaying (fst (activatePlayer s)) = playerPlaying s"
  by (simp add: activatePlayer_def)

lemma player_turn_not_playing: "\<not> playerPlaying s \<Longrightarrow> \<not> playerPlaying (fst (player_turn s))"
  by (auto simp: player_turn_def Let_def split: list.splits)

lemma player_loop_not_playing: "\<not> playerPlaying s \<Longrightarrow> \<not> playerPlaying (fst (player_loop s))"
proof (induction s rule: player_loop.induct)
  case (1 s)
  show ?case
  proof (cases "playList s \<noteq> [] \<and> \<not> playerStopped s")
    case False
    with 1(2) show ?thesis by (auto simp: player_loop_done)
  next
    case True
    obtain s1 acts written c where t: "player_turn s = (s1, acts, written, c)"
      by (cases "player_turn s") auto
    have n1: "\<not> playerPlaying s1"
      using player_turn_not_playing [OF 1(2)] t by simp
    show ?thesis
    proof (cases c)
      case TypeError
      with True t n1 show ?thesis by (simp add: player_loop_turn)
    next
      case Returned
      with 1(1) True t n1 have "\<not> playerPlaying (fst (player_loop s1))"
        by simp
      with True t Returned show ?thesis
        by (auto simp: player_loop_turn split: prod.splits)
    qed
  qed
qed

lemma player_not_playing: "\<not> playerPlaying s \<Longrightarrow> \<not> playerPlaying (fst (player s))"
  using player_loop_not_playing [of s]
  by (auto simp: player_def split: prod.splits completion.splits)

lemma playFlexFX_not_playing:
  "playerPlaying (fst (playFlexFX ident pitch volume dur background s)) = playerPlaying s"
proof (cases "find (\<lambda>i. id_fx i = Some ident) (flexFXList s)")
  case None
  then show ?thesis by (simp add: playFlexFX_def)
next
  case (Some target)
  then show ?thesis
    by (simp add: playFlexFX_def fst_case_prod_keep playerPlaying_activatePlayer
          playerPlaying_compilePlay)
qed

lemma playBuiltInFlexFX_not_playing:
  "playerPlaying (fst (playBuiltInFlexFX choice pitch volume dur background s)) = playerPlaying s"
  by (simp add: playBuiltInFlexFX_def playFlexFX_not_playing fst_case_prod_keep
        playerPlaying_activatePlayer playerPlaying_compilePlay split: option.splits)

lemma reachable_not_playing: "reachable s \<Longrightarrow> \<not> playerPlaying s"
proof (induction rule: reachable.induct)
  case initial
  show ?case by (simp add: initial_globals_def)
next
  case (worker s)
  then show ?case by (simp add: player_not_playing)
qed (simp_all add: createFlexFX_def create2PartFlexFX_def create3PartFlexFX_def
       createDoubleFlexFX_def Let_def playerPlaying_storeFlexFX performSilence_def
       awaitPlayStart_def awaitAllFinished_def startPlaying_def stopPlaying_def deletePlaylist_def
       fst_case_prod_keep playerPlaying_activatePlayer playFlexFX_not_playing
       playBuiltInFlexFX_not_playing)

lemma ting_reachable: "reachable ting_registry"
  unfolding ting_registry_def by (rule reachable.create [OF reachable.initial])

lemma pause_queued_reachable: "reachable pause_queued"
  unfolding pause_queued_def by (rule reachable.silence [OF reachable.initial])

lemma pause_queued_playList: "playList pause_queued = [\<lparr> parts = [Text ''s250''] \<rparr>]"
  by (simp add: pause_queued_def performSilence_def activatePlayer_def initial_globals_def
        Let_def text_simps)

section \<open>Properties\<close>

subsection \<open>Performance defaults\<close>

text \<open>
  C6. \<^verbatim>\<open>compilePlay(freq, vol, ms)\<close> works with \<open>F\<close>, \<open>V\<close> and \<open>M\<close>: the recipe's
  default where the argument is \<open>0\<close>, the argument itself otherwise. The Play it appends
  is written out in these three values (every product rounded to a double), each of
  which depends on its own argument only;
  so a call with a \<open>0\<close> is the call with the default in its place, the other two
  arguments untouched.
\<close>

theorem compilePlay_defaults:
  "compilePlay r freq vol ms s =
     (let F = (if freq = 0 then defaultFreq r else freq);
          V = (if vol = 0 then defaultVol r else vol);
          M = (if ms = 0 then defaultMs r else ms)
      in s\<lparr> playList := playList s @
           [\<lparr> parts =
               (if playPartA r
                then [SoundEffect (waveA r) (fl (F * freqRatio0 r)) (fl (F * freqRatio1 r))
                        (fl (V * volRatio0 r)) (fl (V * volRatio1 r)) (fl (M * timeRatioA r))
                        (effectA r) (attackA r)]
                else []) @
               (if playPartB r
                then [SoundEffect (waveB r) (fl (F * freqRatio1 r))
                        (if usesPoint2 r then fl (F * freqRatio2 r) else 0)
                        (fl (V * volRatio1 r)) (if usesPoint2 r then fl (V * volRatio2 r) else 0)
                        (if usesPoint2 r then fl (M * timeRatioB r) else 0)
                        (effectB r) (attackB r)]
                else if skipPartB r
                then [Text (CHR ''_'' # convertToText \<lfloor>fl (M * timeRatioB r)\<rfloor>)]
                else []) @
               (if playPartC r
                then [SoundEffect (waveC r) (if usesPoint2 r then fl (F * freqRatio2 r) else 0)
                        (if usesPoint3 r then fl (F * freqRatio3 r) else 0)
                        (if usesPoint2 r then fl (V * volRatio2 r) else 0)
                        (if usesPoint3 r then fl (V * volRatio3 r) else 0)
                        (if usesPoint3 r then fl (M * timeRatioC r) else 0)
                        (effectC r) (attackC r)]
                else []) \<rparr>] \<rparr>)
   \<and> compilePlay r 0 vol ms s = compilePlay r (defaultFreq r) vol ms s
   \<and> compilePlay r freq 0 ms s = compilePlay r freq (defaultVol r) ms s
   \<and> compilePlay r freq vol 0 s = compilePlay r freq vol (defaultMs r) s"
  by (simp add: compilePlay_def Let_def)

subsection \<open>Waiting resumes the play-list\<close>

text \<open>
  C8. \<^verbatim>\<open>awaitPlayStart\<close> and \<^verbatim>\<open>awaitAllFinished\<close> clear \<^verbatim>\<open>playerStopped\<close>, leave
  the worker active, spawning it exactly when it was not active, and only then wait
  for their event (\<^verbatim>\<open>STARTING\<close> and \<^verbatim>\<open>ALLPLAYED\<close>). The guard \<^verbatim>\<open>playList.length >= 0\<close>
  holds of every play-list, so this is what every call does.
\<close>

theorem await_resumes_playlist:
  "awaitPlayStart s =
     (s\<lparr> playerStopped := False, playerActive := True \<rparr>,
      (if playerActive s then [] else [InBackground]) @ [WaitForEvent STARTING])
   \<and> awaitAllFinished s =
     (s\<lparr> playerStopped := False, playerActive := True \<rparr>,
      (if playerActive s then [] else [InBackground]) @ [WaitForEvent ALLPLAYED])"
  by (cases s) (simp add: awaitPlayStart_def awaitAllFinished_def activatePlayer_def)

subsection \<open>Waiting for a start on an empty play-list\<close>

text \<open>
  C3. With nothing on the play-list, \<^verbatim>\<open>awaitPlayStart\<close> does not return at once: it
  clears \<^verbatim>\<open>playerStopped\<close>, spawns the worker unless it is active, and then waits for
  \<^verbatim>\<open>STARTING\<close>; so it does on the module's initial globals.
  The branch the comment \<^verbatim>\<open>// else nothing to wait for\<close> stands on is never taken,
  because the guard is \<^verbatim>\<open>playList.length >= 0\<close>.
\<close>

theorem awaitPlayStart_empty_playlist_waits:
  "awaitPlayStart (s\<lparr> playList := [] \<rparr>) =
     (s\<lparr> playList := [], playerStopped := False, playerActive := True \<rparr>,
      (if playerActive s then [] else [InBackground]) @ [WaitForEvent STARTING])
   \<and> playList initial_globals = []
   \<and> awaitPlayStart initial_globals =
       (initial_globals\<lparr> playerActive := True \<rparr>, [InBackground, WaitForEvent STARTING])"
proof -
  have "awaitPlayStart (s\<lparr> playList := [] \<rparr>) =
     (s\<lparr> playList := [], playerStopped := False, playerActive := True \<rparr>,
      (if playerActive s then [] else [InBackground]) @ [WaitForEvent STARTING])"
    by (cases s) (simp add: awaitPlayStart_def activatePlayer_def)
  moreover have "awaitPlayStart initial_globals =
       (initial_globals\<lparr> playerActive := True \<rparr>, [InBackground, WaitForEvent STARTING])"
    by (simp add: awaitPlayStart_def activatePlayer_def initial_globals_def)
  ultimately show ?thesis
    by (simp add: initial_globals_def)
qed

subsection \<open>Unknown recipes\<close>

text \<open>
  C9. When no stored recipe has the id asked for, \<^verbatim>\<open>playFlexFX\<close> changes none of the
  globals (play-list, registry and the three flags) and does nothing else: it raises
  no event, spawns nothing and waits for nothing.
\<close>

theorem playFlexFX_unknown_id:
  assumes "\<forall>r \<in> set (flexFXList s). id_fx r \<noteq> Some ident"
  shows "playFlexFX ident pitch volume dur background s = (s, [])"
proof -
  from assms have "find (\<lambda>i. id_fx i = Some ident) (flexFXList s) = None"
    by (simp add: find_None_iff)
  then show ?thesis
    by (simp add: playFlexFX_def)
qed

theorem playFlexFX_unknown_id_witness:
  "playFlexFX ''tong'' 800 200 400 False ting_registry = (ting_registry, [])"
  using playFlexFX_unknown_id [of ting_registry "''tong''" 800 200 400 False]
  by (simp add: ting_stored)

subsection \<open>Storing a recipe\<close>


subsection \<open>Time ratios of a created recipe\<close>

text \<open>
  C5. Each setter clamps the time ratio it is given into the budget that is left, and the
  budget is a double: \<open>1\<close> for part A, the rounded \<open>1 - timeRatioA\<close> for part B (sounding
  or silent) and the rounded \<open>(1 - timeRatioA) - timeRatioB\<close> for part C; a clamped value
  lies between \<open>0\<close> and a budget that is not negative. With time percentages in
  \<open>[0, 100]\<close> that sum to at most \<open>100\<close>, the recipe that each of the four create functions
  stores (the last of the registry) has time ratios that are not negative, each within
  \<open>1 / 2 ^ 50\<close> of the ratio asked for, and the ratios of its declared parts sum to \<open>1\<close>
  within \<open>1 / 2 ^ 50\<close>. The sum is \<open>1\<close> exactly for \<^verbatim>\<open>createFlexFX\<close>; the second part of
  \<^verbatim>\<open>create2PartFlexFX\<close> gets the whole budget left, the rounded \<open>1 - timeRatioA\<close>.
\<close>

theorem created_time_ratios_sum_near_one:
  assumes "0 \<le> tA" "0 \<le> tB" "tA + tB \<le> 100"
  shows "timeRatioA (setPartA f0 v0 w a e f1 v1 t r) = goodTimeRatio t 1
    \<and> timeRatioB (setPartB w a e f2 v2 t r) = goodTimeRatio t (fl (1 - timeRatioA r))
    \<and> timeRatioB (silentPartB f2 v2 t r) = goodTimeRatio t (fl (1 - timeRatioA r))
    \<and> timeRatioC (setPartC w a e f3 v3 t r) =
        goodTimeRatio t (fl (fl (1 - timeRatioA r) - timeRatioB r))
    \<and> (0 \<le> left \<longrightarrow> 0 \<le> goodTimeRatio t left \<and> goodTimeRatio t left \<le> left)
    \<and> (let r1 = last (flexFXList
                 (createFlexFX ident sp sv wA aA eA ep ev pitch volume dur builtIn s))
       in timeRatioA r1 = 1 \<and> declared_time_sum r1 = 1)
    \<and> (let r2 = last (flexFXList
                 (create2PartFlexFX ident sp sv wA aA eA mp mv wB aB eB ep ev tA
                    pitch volume dur builtIn s))
       in 0 \<le> timeRatioA r2 \<and> 0 \<le> timeRatioB r2
          \<and> timeRatioB r2 = fl (1 - timeRatioA r2)
          \<and> \<bar>timeRatioA r2 - tA / 100\<bar> \<le> 1 / 2 ^ 50
          \<and> \<bar>timeRatioB r2 - (1 - tA / 100)\<bar> \<le> 1 / 2 ^ 50
          \<and> \<bar>declared_time_sum r2 - 1\<bar> \<le> 1 / 2 ^ 50)
    \<and> (let r3 = last (flexFXList
                 (create3PartFlexFX ident sp sv wA aA eA mp mv wB aB eB p2 v2 wC aC eC ep ev tA tB
                    pitch volume dur builtIn s))
       in 0 \<le> timeRatioA r3 \<and> 0 \<le> timeRatioB r3 \<and> 0 \<le> timeRatioC r3
          \<and> \<bar>timeRatioA r3 - tA / 100\<bar> \<le> 1 / 2 ^ 50
          \<and> \<bar>timeRatioB r3 - tB / 100\<bar> \<le> 1 / 2 ^ 50
          \<and> \<bar>timeRatioC r3 - (100 - tA - tB) / 100\<bar> \<le> 1 / 2 ^ 50
          \<and> \<bar>declared_time_sum r3 - 1\<bar> \<le> 1 / 2 ^ 50)
    \<and> (let r4 = last (flexFXList
                 (createDoubleFlexFX ident sp sv wA aA eA ep ev mp mv wC aC eC p2 v2 tA tB
                    pitch volume dur builtIn s))
       in 0 \<le> timeRatioA r4 \<and> 0 \<le> timeRatioB r4 \<and> 0 \<le> timeRatioC r4
          \<and> \<bar>timeRatioA r4 - tA / 100\<bar> \<le> 1 / 2 ^ 50
          \<and> \<bar>timeRatioB r4 - tB / 100\<bar> \<le> 1 / 2 ^ 50
          \<and> \<bar>timeRatioC r4 - (100 - tA - tB) / 100\<bar> \<le> 1 / 2 ^ 50
          \<and> \<bar>declared_time_sum r4 - 1\<bar> \<le> 1 / 2 ^ 50)"
proof -
  note build = last_storeFlexFX setPartA_def setPartB_def silentPartB_def setPartC_def
    setDefaults_def new_FlexFX_def declared_time_sum_def Let_def
  have setters:
    "timeRatioA (setPartA f0 v0 w a e f1 v1 t r) = goodTimeRatio t 1"
    "timeRatioB (setPartB w a e f2 v2 t r) = goodTimeRatio t (fl (1 - timeRatioA r))"
    "timeRatioB (silentPartB f2 v2 t r) = goodTimeRatio t (fl (1 - timeRatioA r))"
    "timeRatioC (setPartC w a e f3 v3 t r) =
       goodTimeRatio t (fl (fl (1 - timeRatioA r) - timeRatioB r))"
    by (simp_all add: setPartA_def setPartB_def silentPartB_def setPartC_def)
  have clamp: "0 \<le> left \<longrightarrow> 0 \<le> goodTimeRatio t left \<and> goodTimeRatio t left \<le> left"
    by (simp add: goodTimeRatio_def)
  have one: "let r1 = last (flexFXList
                 (createFlexFX ident sp sv wA aA eA ep ev pitch volume dur builtIn s))
       in timeRatioA r1 = 1 \<and> declared_time_sum r1 = 1"
    by (simp add: createFlexFX_def build goodTimeRatio_def)
  define r2 where "r2 = last (flexFXList
                 (create2PartFlexFX ident sp sv wA aA eA mp mv wB aB eB ep ev tA
                    pitch volume dur builtIn s))"
  define r3 where "r3 = last (flexFXList
                 (create3PartFlexFX ident sp sv wA aA eA mp mv wB aB eB p2 v2 wC aC eC ep ev tA tB
                    pitch volume dur builtIn s))"
  define r4 where "r4 = last (flexFXList
                 (createDoubleFlexFX ident sp sv wA aA eA ep ev mp mv wC aC eC p2 v2 tA tB
                    pitch volume dur builtIn s))"
  have s2: "timeRatioA r2 = goodTimeRatio (fl (tA / 100)) 1"
    "timeRatioB r2 = goodTimeRatio (fl (100 - fl (tA / 100)))
                       (fl (1 - goodTimeRatio (fl (tA / 100)) 1))"
    "declared_time_sum r2 = timeRatioA r2 + timeRatioB r2"
    by (simp_all add: r2_def create2PartFlexFX_def build)
  have s3: "timeRatioA r3 = goodTimeRatio (fl (tA / 100)) 1"
    "timeRatioB r3 = goodTimeRatio (fl (tB / 100)) (fl (1 - goodTimeRatio (fl (tA / 100)) 1))"
    "timeRatioC r3 = goodTimeRatio (fl (fl (fl (100 - tA) - tB) / 100))
       (fl (fl (1 - goodTimeRatio (fl (tA / 100)) 1)
            - goodTimeRatio (fl (tB / 100)) (fl (1 - goodTimeRatio (fl (tA / 100)) 1))))"
    "declared_time_sum r3 = timeRatioA r3 + timeRatioB r3 + timeRatioC r3"
    by (simp_all add: r3_def create3PartFlexFX_def build)
  have s4: "timeRatioA r4 = goodTimeRatio (fl (tA / 100)) 1"
    "timeRatioB r4 = goodTimeRatio (fl (tB / 100)) (fl (1 - goodTimeRatio (fl (tA / 100)) 1))"
    "timeRatioC r4 = goodTimeRatio (fl (fl (fl (100 - tA) - tB) / 100))
       (fl (fl (1 - goodTimeRatio (fl (tA / 100)) 1)
            - goodTimeRatio (fl (tB / 100)) (fl (1 - goodTimeRatio (fl (tA / 100)) 1))))"
    "declared_time_sum r4 = timeRatioA r4 + timeRatioB r4 + timeRatioC r4"
    by (simp_all add: r4_def createDoubleFlexFX_def build)
  have "tA \<le> 100"
    using assms by linarith
  from two_part_ratios [OF assms(1) this]
  have two': "0 \<le> timeRatioA r2 \<and> 0 \<le> timeRatioB r2
          \<and> timeRatioB r2 = fl (1 - timeRatioA r2)
          \<and> \<bar>timeRatioA r2 - tA / 100\<bar> \<le> 1 / 2 ^ 50
          \<and> \<bar>timeRatioB r2 - (1 - tA / 100)\<bar> \<le> 1 / 2 ^ 50
          \<and> \<bar>declared_time_sum r2 - 1\<bar> \<le> 1 / 2 ^ 50"
    unfolding s2(3) unfolding s2(1,2) .
  from three_part_ratios [OF assms]
  have three': "0 \<le> timeRatioA r3 \<and> 0 \<le> timeRatioB r3 \<and> 0 \<le> timeRatioC r3
          \<and> \<bar>timeRatioA r3 - tA / 100\<bar> \<le> 1 / 2 ^ 50
          \<and> \<bar>timeRatioB r3 - tB / 100\<bar> \<le> 1 / 2 ^ 50
          \<and> \<bar>timeRatioC r3 - (100 - tA - tB) / 100\<bar> \<le> 1 / 2 ^ 50
          \<and> \<bar>declared_time_sum r3 - 1\<bar> \<le> 1 / 2 ^ 50"
    unfolding s3(4) unfolding s3(1-3) .
  from three_part_ratios [OF assms]
  have double': "0 \<le> timeRatioA r4 \<and> 0 \<le> timeRatioB r4 \<and> 0 \<le> timeRatioC r4
          \<and> \<bar>timeRatioA r4 - tA / 100\<bar> \<le> 1 / 2 ^ 50
          \<and> \<bar>timeRatioB r4 - tB / 100\<bar> \<le> 1 / 2 ^ 50
          \<and> \<bar>timeRatioC r4 - (100 - tA - tB) / 100\<bar> \<le> 1 / 2 ^ 50
          \<and> \<bar>declared_time_sum r4 - 1\<bar> \<le> 1 / 2 ^ 50"
    unfolding s4(4) unfolding s4(1-3) .
  have two: "let r2 = last (flexFXList
                 (create2PartFlexFX ident sp sv wA aA eA mp mv wB aB eB ep ev tA
                    pitch volume dur builtIn s))
       in 0 \<le> timeRatioA r2 \<and> 0 \<le> timeRatioB r2
          \<and> timeRatioB r2 = fl (1 - timeRatioA r2)
          \<and> \<bar>timeRatioA r2 - tA / 100\<bar> \<le> 1 / 2 ^ 50
          \<and> \<bar>timeRatioB r2 - (1 - tA / 100)\<bar> \<le> 1 / 2 ^ 50
          \<and> \<bar>declared_time_sum r2 - 1\<bar> \<le> 1 / 2 ^ 50"
    unfolding Let_def r2_def [symmetric] by (fact two')
  have three: "let r3 = last (flexFXList
                 (create3PartFlexFX ident sp sv wA aA eA mp mv wB aB eB p2 v2 wC aC eC ep ev tA tB
                    pitch volume dur builtIn s))
       in 0 \<le> timeRatioA r3 \<and> 0 \<le> timeRatioB r3 \<and> 0 \<le> timeRatioC r3
          \<and> \<bar>timeRatioA r3 - tA / 100\<bar> \<le> 1 / 2 ^ 50
          \<and> \<bar>timeRatioB r3 - tB / 100\<bar> \<le> 1 / 2 ^ 50
          \<and> \<bar>timeRatioC r3 - (100 - tA - tB) / 100\<bar> \<le> 1 / 2 ^ 50
          \<and> \<bar>declared_time_sum r3 - 1\<bar> \<le> 1 / 2 ^ 50"
    unfolding Let_def r3_def [symmetric] by (fact three')
  have double: "let r4 = last (flexFXList
                 (createDoubleFlexFX ident sp sv wA aA eA ep ev mp mv wC aC eC p2 v2 tA tB
                    pitch volume dur builtIn s))
       in 0 \<le> timeRatioA r4 \<and> 0 \<le> timeRatioB r4 \<and> 0 \<le> timeRatioC r4
          \<and> \<bar>timeRatioA r4 - tA / 100\<bar> \<le> 1 / 2 ^ 50
          \<and> \<bar>timeRatioB r4 - tB / 100\<bar> \<le> 1 / 2 ^ 50
          \<and> \<bar>timeRatioC r4 - (100 - tA - tB) / 100\<bar> \<le> 1 / 2 ^ 50
          \<and> \<bar>declared_time_sum r4 - 1\<bar> \<le> 1 / 2 ^ 50"
    unfolding Let_def r4_def [symmetric] by (fact double')
  from setters clamp one two three double show ?thesis
    by blast
qed

text \<open>
  The built-in violin's percentages, 10 and 85: its stored ratios are the doubles nearest to
  0.1, 0.85 and 0.05, which sum to \<open>1 - 1 / 2 ^ 56\<close>.
\<close>

theorem created_time_ratios_sum_near_one_witness:
  "(0::real) \<le> 10 \<and> (0::real) \<le> 85 \<and> (10::real) + 85 \<le> 100
   \<and> \<bar>timeRatioA (last (flexFXList violin_registry)) - 10 / 100\<bar> \<le> 1 / 2 ^ 50
   \<and> \<bar>timeRatioB (last (flexFXList violin_registry)) - 85 / 100\<bar> \<le> 1 / 2 ^ 50
   \<and> \<bar>timeRatioC (last (flexFXList violin_registry)) - (100 - 10 - 85) / 100\<bar> \<le> 1 / 2 ^ 50
   \<and> \<bar>declared_time_sum (last (flexFXList violin_registry)) - 1\<bar> \<le> 1 / 2 ^ 50
   \<and> timeRatioA (last (flexFXList violin_registry)) = 3602879701896397 / 36028797018963968
   \<and> timeRatioB (last (flexFXList violin_registry)) = 7656119366529843 / 9007199254740992
   \<and> timeRatioC (last (flexFXList violin_registry)) = 3602879701896397 / 72057594037927936
   \<and> declared_time_sum (last (flexFXList violin_registry))
       = 72057594037927935 / 72057594037927936"
proof -
  have v: "timeRatioA (last (flexFXList violin_registry)) = 3602879701896397 / 36028797018963968"
    "timeRatioB (last (flexFXList violin_registry)) = 7656119366529843 / 9007199254740992"
    "timeRatioC (last (flexFXList violin_registry)) = 3602879701896397 / 72057594037927936"
    "declared_time_sum (last (flexFXList violin_registry))
       = 72057594037927935 / 72057594037927936"
    by (simp_all add: violin_stored declared_time_sum_def)
  have h: "(0::real) \<le> 10" "(0::real) \<le> 85" "(10::real) + 85 \<le> 100"
    by simp_all
  from created_time_ratios_sum_near_one [OF h,
       where ident = "''''" and sp = 1 and sv = 100
       and wA = 1 and aA = 2 and eA = 0 and mp = 100 and mv = 75
       and wB = 1 and aB = 0 and eB = 0 and ?p2.0 = 100 and ?v2.0 = 75
       and wC = 1 and aC = 0 and eC = 0 and ep = 10 and ev = 100
       and pitch = 440 and volume = 200 and dur = 500 and builtIn = 6 and s = initial_globals]
  have "\<bar>timeRatioA (last (flexFXList violin_registry)) - 10 / 100\<bar> \<le> 1 / 2 ^ 50
   \<and> \<bar>timeRatioB (last (flexFXList violin_registry)) - 85 / 100\<bar> \<le> 1 / 2 ^ 50
   \<and> \<bar>timeRatioC (last (flexFXList violin_registry)) - (100 - 10 - 85) / 100\<bar> \<le> 1 / 2 ^ 50
   \<and> \<bar>declared_time_sum (last (flexFXList violin_registry)) - 1\<bar> \<le> 1 / 2 ^ 50"
    unfolding violin_registry_def Let_def by blast
  with v h show ?thesis
    by blast
qed

text \<open>
  The percentages 1 and 6 miss: \<^verbatim>\<open>create3PartFlexFX\<close> stores the doubles nearest to 0.01 and
  0.06 and, as the third ratio, 0.9299999999999999, the double next below the one nearest
  to 0.93. Their sum is less than \<open>1\<close>, and so is their sum in double arithmetic, which
  is \<open>1 - 1 / 2 ^ 53\<close>.
\<close>

theorem created_time_ratios_miss_one:
  "(0::real) \<le> 1 \<and> (0::real) \<le> 6 \<and> (1::real) + 6 \<le> 100
   \<and> timeRatioA (last (flexFXList slow_end_registry)) = 5764607523034235 / 576460752303423488
   \<and> timeRatioB (last (flexFXList slow_end_registry)) = 1080863910568919 / 18014398509481984
   \<and> timeRatioC (last (flexFXList slow_end_registry)) = 4188347653454561 / 4503599627370496
   \<and> declared_time_sum (last (flexFXList slow_end_registry))
       = 576460752303423451 / 576460752303423488
   \<and> declared_time_sum (last (flexFXList slow_end_registry)) < 1
   \<and> fl (fl (timeRatioA (last (flexFXList slow_end_registry))
              + timeRatioB (last (flexFXList slow_end_registry)))
          + timeRatioC (last (flexFXList slow_end_registry)))
       = 9007199254740991 / 9007199254740992"
  by (simp add: slow_end_stored declared_time_sum_def fl_eval)

subsection \<open>Durations of a compiled Play\<close>

text \<open>
  C1. For a recipe stored in a registry the module can reach, with the time ratios of
  its declared parts summing to \<open>1\<close> within \<open>1 / 2 ^ 50\<close> (as the create functions leave
  them), and for \<open>ms\<close> other than \<open>0\<close>: the durations of the parts of the Play that
  \<^verbatim>\<open>compilePlay(freq, vol, ms)\<close> appends are the doubles nearest to \<open>ms * timeRatioA\<close>,
  \<open>ms * timeRatioB\<close> (rounded down to a whole number for a silent gap) and
  \<open>ms * timeRatioC\<close>, and their total \<open>d\<close> is \<open>ms\<close> within rounding: with
  \<open>e = \<bar>ms\<bar> / 2 ^ 49 + 1 / 2 ^ 1073\<close>, \<open>ms - 1 - e < d \<le> ms + e\<close>, and
  \<open>\<bar>d - ms\<bar> \<le> e\<close> unless part B is a silent gap.
\<close>

theorem compiled_durations_sum_near:
  assumes "reachable s" "r \<in> set (flexFXList s)" "\<bar>declared_time_sum r - 1\<bar> \<le> 1 / 2 ^ 50"
    "ms \<noteq> 0"
  shows "\<exists>d. total_ms (parts (last (playList (compilePlay r freq vol ms s)))) = Some d
            \<and> d = fl (ms * timeRatioA r)
                  + ((if playPartB r then fl (ms * timeRatioB r)
                      else if skipPartB r then real_of_int \<lfloor>fl (ms * timeRatioB r)\<rfloor> else 0)
                     + (if playPartC r then fl (ms * timeRatioC r) else 0))
            \<and> ms - 1 - (\<bar>ms\<bar> / 2 ^ 49 + 1 / 2 ^ 1073) < d
            \<and> d \<le> ms + (\<bar>ms\<bar> / 2 ^ 49 + 1 / 2 ^ 1073)
            \<and> (playPartB r \<or> \<not> skipPartB r \<longrightarrow> \<bar>d - ms\<bar> \<le> \<bar>ms\<bar> / 2 ^ 49 + 1 / 2 ^ 1073)"
proof -
  define u :: real where "u = 1 / 2 ^ 53"
  define h :: real where "h = 1 / 2 ^ 1075"
  define M where "M = \<bar>ms\<bar>"
  define E where "E = M * u"
  have h: "0 \<le> h" "0 < u" "u \<le> 1 / 8"
    by (simp_all add: h_def u_def)
  have E: "0 \<le> E"
    by (simp add: E_def M_def u_def)
  have bound: "\<bar>ms\<bar> / 2 ^ 49 + 1 / 2 ^ 1073 = 16 * E + 4 * h"
    by (simp add: E_def M_def u_def h_def)
  have eight: "1 / 2 ^ 50 = 8 * u"
    by (simp add: u_def)
  note w = fl_within [folded h_def u_def]
  define a where "a = timeRatioA r"
  define b where "b = (if playPartB r \<or> skipPartB r then timeRatioB r else 0)"
  define c where "c = (if playPartC r then timeRatioC r else 0)"
  define xa where "xa = fl (ms * timeRatioA r)"
  define xb where "xb = (if playPartB r \<or> skipPartB r then fl (ms * timeRatioB r) else 0)"
  define xc where "xc = (if playPartC r then fl (ms * timeRatioC r) else 0)"
  define g where "g = (if playPartB r then fl (ms * timeRatioB r)
                       else if skipPartB r then real_of_int \<lfloor>fl (ms * timeRatioB r)\<rfloor> else 0)"
  have fc: "flags_consistent r" using assms(1,2) by (rule stored_flags)
  have rn: "ratios_nonneg r" using assms(1,2) by (rule stored_ratios_nonneg)
  have nonneg: "0 \<le> a" "0 \<le> b" "0 \<le> c"
    using rn by (simp_all add: ratios_nonneg_def a_def b_def c_def)
  have total: "total_ms (parts (last (playList (compilePlay r freq vol ms s)))) =
                 Some (xa + (g + xc))"
    using total_ms_compilePlay [of r ms freq vol s] assms(4) fc
    by (simp add: flags_consistent_def xa_def g_def xc_def)
  have "declared_time_sum r = a + b + c"
    using fc by (simp add: declared_time_sum_def flags_consistent_def a_def b_def c_def)
  with assms(3) have S: "\<bar>a + b + c - 1\<bar> \<le> 8 * u"
    by (simp only: eight)
  have abs_prod: "\<bar>ms * t\<bar> \<le> M * t" if "0 \<le> t" for t
    using that by (simp add: abs_mult M_def)
  have xa: "ms * a - (M * a * u + h) \<le> xa" "xa \<le> ms * a + (M * a * u + h)"
    using w [OF abs_prod [OF nonneg(1)]] by (simp_all add: xa_def a_def)
  have xb: "ms * b - (M * b * u + h) \<le> xb \<and> xb \<le> ms * b + (M * b * u + h)"
  proof (cases "playPartB r \<or> skipPartB r")
    case True
    then have "xb = fl (ms * b)"
      by (simp add: xb_def b_def)
    with w [OF abs_prod [OF nonneg(2)]] show ?thesis
      by simp
  next
    case False
    then have "xb = 0" "b = 0"
      by (simp_all add: xb_def b_def)
    with h show ?thesis
      by simp
  qed
  have xc: "ms * c - (M * c * u + h) \<le> xc \<and> xc \<le> ms * c + (M * c * u + h)"
  proof (cases "playPartC r")
    case True
    then have "xc = fl (ms * c)"
      by (simp add: xc_def c_def)
    with w [OF abs_prod [OF nonneg(3)]] show ?thesis
      by simp
  next
    case False
    then have "xc = 0" "c = 0"
      by (simp_all add: xc_def c_def)
    with h show ?thesis
      by simp
  qed
  have "a + b + c \<le> 2"
    using S h by linarith
  then have "E * (a + b + c) \<le> E * 2"
    using E by (rule mult_left_mono)
  then have errs: "M * a * u + M * b * u + M * c * u \<le> 2 * E"
    by (simp add: E_def algebra_simps)
  have "\<bar>ms * (a + b + c - 1)\<bar> = M * \<bar>a + b + c - 1\<bar>"
    by (simp add: abs_mult M_def)
  also have "\<dots> \<le> M * (8 * u)"
    using S by (rule mult_left_mono) (simp add: M_def)
  finally have prod: "\<bar>ms * a + ms * b + ms * c - ms\<bar> \<le> 8 * E"
    by (simp add: E_def algebra_simps)
  have near: "\<bar>xa + (xb + xc) - ms\<bar> \<le> 10 * E + 3 * h"
    using xa xb xc errs prod by linarith
  have exact: "g = xb" if "playPartB r \<or> \<not> skipPartB r"
    using that by (auto simp: g_def xb_def)
  have lower: "xb - 1 < g" and upper: "g \<le> xb"
    by (auto simp: g_def xb_def)
  have 1: "ms - 1 - (16 * E + 4 * h) < xa + (g + xc)"
    using near lower E h by linarith
  have 2: "xa + (g + xc) \<le> ms + (16 * E + 4 * h)"
    using near upper E h by linarith
  have 3: "\<bar>xa + (g + xc) - ms\<bar> \<le> 16 * E + 4 * h" if "playPartB r \<or> \<not> skipPartB r"
    using near exact [OF that] E h by linarith
  have d: "xa + (g + xc) = fl (ms * timeRatioA r)
                  + ((if playPartB r then fl (ms * timeRatioB r)
                      else if skipPartB r then real_of_int \<lfloor>fl (ms * timeRatioB r)\<rfloor> else 0)
                     + (if playPartC r then fl (ms * timeRatioC r) else 0))"
    by (simp add: xa_def g_def xc_def)
  from total d 1 2 3 show ?thesis
    unfolding bound by blast
qed

text \<open>
  The built-in siren (45\% sound, 10\% gap, 45\% sound) played for 1005 ms: its ratios sum
  to \<open>1 + 1 / 2 ^ 55\<close>, the gap of 100.5 ms is queued as \<open>_100\<close>, and the Play lasts
  1004.5 ms. The recipe \<open>long-middle\<close> (9\%, 74\%, 17\%, all sounding) played for 440 ms: its
  ratios sum to \<open>1\<close>, and the Play lasts \<open>440 + 5 / 2 ^ 47\<close> ms.
\<close>

theorem compiled_durations_sum_near_witness:
  "reachable siren_registry
   \<and> last (flexFXList siren_registry) \<in> set (flexFXList siren_registry)
   \<and> \<bar>declared_time_sum (last (flexFXList siren_registry)) - 1\<bar> \<le> 1 / 2 ^ 50
   \<and> (1005::real) \<noteq> 0
   \<and> (\<exists>d. total_ms (parts (last (playList
              (compilePlay (last (flexFXList siren_registry)) 0 0 1005 siren_registry)))) = Some d
          \<and> 1005 - 1 - (\<bar>1005\<bar> / 2 ^ 49 + 1 / 2 ^ 1073) < d
          \<and> d \<le> 1005 + (\<bar>1005\<bar> / 2 ^ 49 + 1 / 2 ^ 1073))
   \<and> total_ms (parts (last (playList
         (compilePlay (last (flexFXList siren_registry)) 0 0 1005 siren_registry))))
       = Some (2009 / 2)
   \<and> reachable long_middle_registry
   \<and> last (flexFXList long_middle_registry) \<in> set (flexFXList long_middle_registry)
   \<and> \<bar>declared_time_sum (last (flexFXList long_middle_registry)) - 1\<bar> \<le> 1 / 2 ^ 50
   \<and> (440::real) \<noteq> 0
   \<and> playPartB (last (flexFXList long_middle_registry))
   \<and> (\<exists>d. total_ms (parts (last (playList
              (compilePlay (last (flexFXList long_middle_registry)) 0 0 440
                 long_middle_registry)))) = Some d
          \<and> \<bar>d - 440\<bar> \<le> \<bar>440\<bar> / 2 ^ 49 + 1 / 2 ^ 1073)
   \<and> total_ms (parts (last (playList
         (compilePlay (last (flexFXList long_middle_registry)) 0 0 440 long_middle_registry))))
       = Some (61924494876344325 / 140737488355328)"
proof -
  have m: "last (flexFXList siren_registry) \<in> set (flexFXList siren_registry)"
    by (simp add: siren_stored)
  have d: "\<bar>declared_time_sum (last (flexFXList siren_registry)) - 1\<bar> \<le> 1 / 2 ^ 50"
    by (simp add: siren_stored declared_time_sum_def)
  have n: "(1005::real) \<noteq> 0"
    by simp
  have t: "total_ms (parts (last (playList
         (compilePlay (last (flexFXList siren_registry)) 0 0 1005 siren_registry))))
       = Some (2009 / 2)"
    unfolding compilePlay_def Let_def
    by (simp add: siren_stored segment_ms_gap segment_ms_sound fl_eval)
  from compiled_durations_sum_near [OF siren_reachable m d n, of 0 0]
  have e: "\<exists>d. total_ms (parts (last (playList
              (compilePlay (last (flexFXList siren_registry)) 0 0 1005 siren_registry)))) = Some d
          \<and> 1005 - 1 - (\<bar>1005\<bar> / 2 ^ 49 + 1 / 2 ^ 1073) < d
          \<and> d \<le> 1005 + (\<bar>1005\<bar> / 2 ^ 49 + 1 / 2 ^ 1073)"
    by blast
  have m': "last (flexFXList long_middle_registry) \<in> set (flexFXList long_middle_registry)"
    by (simp add: long_middle_stored)
  have d': "\<bar>declared_time_sum (last (flexFXList long_middle_registry)) - 1\<bar> \<le> 1 / 2 ^ 50"
    by (simp add: long_middle_stored declared_time_sum_def)
  have n': "(440::real) \<noteq> 0"
    by simp
  have b': "playPartB (last (flexFXList long_middle_registry))"
    by (simp add: long_middle_stored)
  have t': "total_ms (parts (last (playList
         (compilePlay (last (flexFXList long_middle_registry)) 0 0 440 long_middle_registry))))
       = Some (61924494876344325 / 140737488355328)"
    unfolding compilePlay_def Let_def
    by (simp add: long_middle_stored segment_ms_sound fl_eval)
  from compiled_durations_sum_near [OF long_middle_reachable m' d' n', of 0 0] b'
  have e': "\<exists>d. total_ms (parts (last (playList
              (compilePlay (last (flexFXList long_middle_registry)) 0 0 440
                 long_middle_registry)))) = Some d
          \<and> \<bar>d - 440\<bar> \<le> \<bar>440\<bar> / 2 ^ 49 + 1 / 2 ^ 1073"
    by blast
  from siren_reachable m d n e t long_middle_reachable m' d' n' b' e' t' show ?thesis
    by blast
qed

text \<open>
  Two Plays contradict an exact sum. The recipe \<open>long-middle\<close> played for 440 ms: its
  three ratios, the doubles that \<^verbatim>\<open>create3PartFlexFX\<close> stores for 9\%, 74\% and the rest, sum
  to \<open>1\<close> (exactly, and in double arithmetic), no part is a silent gap, and the three
  durations that \<^verbatim>\<open>compilePlay\<close> writes sum to \<open>440 + 5 / 2 ^ 47\<close>, more than 440 ms; summed
  in double arithmetic they give 440.00000000000006, the double next above 440. The
  recipe \<open>short-gap\<close> played for 100 ms: its ratios sum to \<open>1\<close> as well, the product of 100
  and the stored gap ratio rounds to 28.999999999999996, the gap is queued as \<open>_28\<close>, and
  the Play lasts 99 ms, a whole millisecond less than asked for.
\<close>

theorem compiled_durations_exceed_ms:
  "reachable long_middle_registry
   \<and> last (flexFXList long_middle_registry) \<in> set (flexFXList long_middle_registry)
   \<and> declared_time_sum (last (flexFXList long_middle_registry)) = 1
   \<and> fl (fl (timeRatioA (last (flexFXList long_middle_registry))
              + timeRatioB (last (flexFXList long_middle_registry)))
          + timeRatioC (last (flexFXList long_middle_registry))) = 1
   \<and> (440::real) \<noteq> 0
   \<and> playPartB (last (flexFXList long_middle_registry))
   \<and> parts (last (playList
        (compilePlay (last (flexFXList long_middle_registry)) 0 0 440 long_middle_registry))) =
       [SoundEffect 0 800 800 200 200 (5573204538870989 / 140737488355328) 0 0,
        SoundEffect 0 800 800 200 200 (2864007888030925 / 8796093022208) 0 0,
        SoundEffect 0 800 800 200 200 (1315895516122317 / 17592186044416) 0 0]
   \<and> total_ms (parts (last (playList
        (compilePlay (last (flexFXList long_middle_registry)) 0 0 440 long_middle_registry))))
       = Some (61924494876344325 / 140737488355328)
   \<and> (440::real) < 61924494876344325 / 140737488355328
   \<and> fl (fl (5573204538870989 / 140737488355328 + 2864007888030925 / 8796093022208)
          + 1315895516122317 / 17592186044416) = 7740561859543041 / 17592186044416
   \<and> (440::real) < 7740561859543041 / 17592186044416
   \<and> reachable short_gap_registry
   \<and> last (flexFXList short_gap_registry) \<in> set (flexFXList short_gap_registry)
   \<and> declared_time_sum (last (flexFXList short_gap_registry)) = 1
   \<and> fl (fl (timeRatioA (last (flexFXList short_gap_registry))
              + timeRatioB (last (flexFXList short_gap_registry)))
          + timeRatioC (last (flexFXList short_gap_registry))) = 1
   \<and> (100::real) \<noteq> 0
   \<and> fl (100 * timeRatioB (last (flexFXList short_gap_registry)))
       = 8162774324609023 / 281474976710656
   \<and> parts (last (playList
        (compilePlay (last (flexFXList short_gap_registry)) 0 0 100 short_gap_registry))) =
       [SoundEffect 0 800 800 200 200 45 0 0,
        Text ''_28'',
        SoundEffect 0 800 800 200 200 26 0 0]
   \<and> total_ms (parts (last (playList
        (compilePlay (last (flexFXList short_gap_registry)) 0 0 100 short_gap_registry))))
       = Some 99
   \<and> \<not> (100 - 1 < (99::real))"
proof -
  have p: "parts (last (playList
        (compilePlay (last (flexFXList long_middle_registry)) 0 0 440 long_middle_registry))) =
       [SoundEffect 0 800 800 200 200 (5573204538870989 / 140737488355328) 0 0,
        SoundEffect 0 800 800 200 200 (2864007888030925 / 8796093022208) 0 0,
        SoundEffect 0 800 800 200 200 (1315895516122317 / 17592186044416) 0 0]"
    unfolding compilePlay_def Let_def
    by (simp add: long_middle_stored fl_eval)
  have t: "total_ms
       [SoundEffect 0 800 800 200 200 (5573204538870989 / 140737488355328) 0 0,
        SoundEffect 0 800 800 200 200 (2864007888030925 / 8796093022208) 0 0,
        SoundEffect 0 800 800 200 200 (1315895516122317 / 17592186044416) 0 0]
       = Some (61924494876344325 / 140737488355328)"
    by (simp add: segment_ms_sound)
  have f: "fl (fl (5573204538870989 / 140737488355328 + 2864007888030925 / 8796093022208)
          + 1315895516122317 / 17592186044416) = 7740561859543041 / 17592186044416"
    by (simp add: fl_eval)
  have r: "last (flexFXList long_middle_registry) \<in> set (flexFXList long_middle_registry)"
    "declared_time_sum (last (flexFXList long_middle_registry)) = 1"
    "fl (fl (timeRatioA (last (flexFXList long_middle_registry))
              + timeRatioB (last (flexFXList long_middle_registry)))
          + timeRatioC (last (flexFXList long_middle_registry))) = 1"
    "playPartB (last (flexFXList long_middle_registry))"
    by (simp_all add: long_middle_stored declared_time_sum_def fl_eval)
  have p': "parts (last (playList
        (compilePlay (last (flexFXList short_gap_registry)) 0 0 100 short_gap_registry))) =
       [SoundEffect 0 800 800 200 200 45 0 0,
        Text ''_28'',
        SoundEffect 0 800 800 200 200 26 0 0]"
    unfolding compilePlay_def Let_def
    by (simp add: short_gap_stored fl_eval text_simps)
  have t': "total_ms
       [SoundEffect 0 800 800 200 200 45 0 0,
        Text (CHR ''_'' # convertToText 28),
        SoundEffect 0 800 800 200 200 26 0 0] = Some 99"
    by (simp add: segment_ms_sound segment_ms_gap)
  have c: "convertToText 28 = ''28''"
    by (simp add: text_simps)
  have r': "last (flexFXList short_gap_registry) \<in> set (flexFXList short_gap_registry)"
    "declared_time_sum (last (flexFXList short_gap_registry)) = 1"
    "fl (fl (timeRatioA (last (flexFXList short_gap_registry))
              + timeRatioB (last (flexFXList short_gap_registry)))
          + timeRatioC (last (flexFXList short_gap_registry))) = 1"
    "fl (100 * timeRatioB (last (flexFXList short_gap_registry)))
       = 8162774324609023 / 281474976710656"
    by (simp_all add: short_gap_stored declared_time_sum_def fl_eval)
  from long_middle_reachable r p t f short_gap_reachable r' p' t' c show ?thesis
    by simp
qed

subsection \<open>Profile continuity\<close>

text \<open>
  C4. In the Play compiled from a stored recipe, with \<open>F\<close> and \<open>V\<close> the frequency and volume
  the performance works with (the argument, or the recipe's default for a \<open>0\<close>), every
  sound that directly follows a sound starts where that one ended. For a recipe with a
  sounding part B the Play is written out: part A's sound ends at
  \<open>(F * freqRatio1, V * volRatio1)\<close>, where part B's sound starts, and part B's sound ends
  at \<open>(F * freqRatio2, V * volRatio2)\<close>, where the sound of a part C starts. Every
  product is rounded to a double, the same double at the end of one sound and at the
  start of the next.
\<close>

theorem profile_continuity:
  assumes "reachable s" "r \<in> set (flexFXList s)"
  shows "let F = (if freq = 0 then defaultFreq r else freq);
             V = (if vol = 0 then defaultVol r else vol);
             M = (if ms = 0 then defaultMs r else ms);
             ps = parts (last (playList (compilePlay r freq vol ms s)))
         in profile_continuous ps
            \<and> (playPartB r \<longrightarrow>
                 ps = [SoundEffect (waveA r) (fl (F * freqRatio0 r)) (fl (F * freqRatio1 r))
                         (fl (V * volRatio0 r)) (fl (V * volRatio1 r)) (fl (M * timeRatioA r))
                         (effectA r) (attackA r),
                       SoundEffect (waveB r) (fl (F * freqRatio1 r)) (fl (F * freqRatio2 r))
                         (fl (V * volRatio1 r)) (fl (V * volRatio2 r)) (fl (M * timeRatioB r))
                         (effectB r) (attackB r)]
                      @ (if playPartC r
                         then [SoundEffect (waveC r) (fl (F * freqRatio2 r)) (fl (F * freqRatio3 r))
                                 (fl (V * volRatio2 r)) (fl (V * volRatio3 r)) (fl (M * timeRatioC r))
                                 (effectC r) (attackC r)]
                         else []))"
proof -
  have "flags_consistent r" using assms by (rule stored_flags)
  then show ?thesis
    by (auto simp: flags_consistent_def compilePlay_def Let_def)
qed

text \<open>
  The built-in violin at its default pitch and duration, with volume 100. Its first
  sound starts at the double nearest to 4.4 Hz.
\<close>

theorem profile_continuity_witness:
  "reachable violin_registry
   \<and> last (flexFXList violin_registry) \<in> set (flexFXList violin_registry)
   \<and> playPartB (last (flexFXList violin_registry))
   \<and> profile_continuous (parts (last (playList
        (compilePlay (last (flexFXList violin_registry)) 0 100 0 violin_registry))))
   \<and> parts (last (playList
        (compilePlay (last (flexFXList violin_registry)) 0 100 0 violin_registry))) =
       [SoundEffect 1 (2476979795053773 / 562949953421312) 440 100 75 50 0 2,
        SoundEffect 1 440 440 75 75 425 0 0,
        SoundEffect 1 440 44 75 100 25 0 0]"
proof -
  have m: "last (flexFXList violin_registry) \<in> set (flexFXList violin_registry)"
    by (simp add: violin_stored)
  have b: "playPartB (last (flexFXList violin_registry))"
    by (simp add: violin_stored)
  have p: "parts (last (playList
        (compilePlay (last (flexFXList violin_registry)) 0 100 0 violin_registry))) =
       [SoundEffect 1 (2476979795053773 / 562949953421312) 440 100 75 50 0 2,
        SoundEffect 1 440 440 75 75 425 0 0,
        SoundEffect 1 440 44 75 100 25 0 0]"
    unfolding compilePlay_def Let_def
    by (simp add: violin_stored fl_eval)
  from profile_continuity [OF violin_reachable m, of 0 100 0]
  have "profile_continuous (parts (last (playList
        (compilePlay (last (flexFXList violin_registry)) 0 100 0 violin_registry))))"
    by (simp add: Let_def)
  with violin_reachable m b p show ?thesis
    by simp
qed

subsection \<open>Queued pauses\<close>

text \<open>
  C7. When the worker takes from the play-list a Play whose first part starts with \<open>s\<close>,
  its turn consists of one pause, for the milliseconds written after the \<open>s\<close>: no event
  is raised, nothing is written to \<^verbatim>\<open>playerPlaying\<close>, which is false before and after,
  and the loop goes on with the rest of the play-list. The Play that
  \<^verbatim>\<open>performSilence(ms)\<close> queues is of this kind, and the milliseconds read back from it
  are the floor of \<open>ms\<close>.
\<close>

theorem queued_pause_is_not_playing:
  assumes "reachable s" "playList s = play # rest" "parts play = first # others"
    "charAt0_is first (CHR ''s'')"
  shows "player_turn s = (s\<lparr> playList := rest \<rparr>, [Pause (encoded_ms first)], [], Returned)
    \<and> \<not> playerPlaying s \<and> \<not> playerPlaying (fst (player_turn s))
    \<and> (\<not> playerStopped s \<longrightarrow>
         player_loop s =
           (case player_loop (s\<lparr> playList := rest \<rparr>) of
              (s2, acts2, c) \<Rightarrow> (s2, Pause (encoded_ms first) # acts2, c)))
    \<and> (let queued = last (playList (fst (performSilence ms t)))
       in parts queued = [Text (CHR ''s'' # convertToText \<lfloor>ms\<rfloor>)]
          \<and> charAt0_is (hd (parts queued)) (CHR ''s'')
          \<and> encoded_ms (hd (parts queued)) = Some \<lfloor>ms\<rfloor>)"
proof -
  have turn: "player_turn s = (s\<lparr> playList := rest \<rparr>, [Pause (encoded_ms first)], [], Returned)"
    using assms(2-4) by (simp add: player_turn_def)
  have np: "\<not> playerPlaying s"
    using assms(1) by (rule reachable_not_playing)
  have loop: "player_loop s =
           (case player_loop (s\<lparr> playList := rest \<rparr>) of
              (s2, acts2, c) \<Rightarrow> (s2, Pause (encoded_ms first) # acts2, c))"
    if "\<not> playerStopped s"
    using that assms(2) turn by (simp add: player_loop_turn)
  have silence: "let queued = last (playList (fst (performSilence ms t)))
       in parts queued = [Text (CHR ''s'' # convertToText \<lfloor>ms\<rfloor>)]
          \<and> charAt0_is (hd (parts queued)) (CHR ''s'')
          \<and> encoded_ms (hd (parts queued)) = Some \<lfloor>ms\<rfloor>"
    by (simp add: performSilence_def Let_def activatePlayer_def charAt0_is_def encoded_ms_def
          slice1_def parseInt_convertToText)
  from turn np loop silence show ?thesis
    by simp
qed

theorem queued_pause_is_not_playing_witness:
  "reachable pause_queued
   \<and> playList pause_queued = [\<lparr> parts = [Text ''s250''] \<rparr>]
   \<and> charAt0_is (Text ''s250'') (CHR ''s'')
   \<and> player_turn pause_queued = (pause_queued\<lparr> playList := [] \<rparr>, [Pause (Some 250)], [], Returned)
   \<and> \<not> playerPlaying (fst (player_turn pause_queued))"
proof -
  have p: "parts \<lparr> parts = [Text ''s250''] \<rparr> = [Text ''s250'']"
    by simp
  have c: "charAt0_is (Text ''s250'') (CHR ''s'')"
    by (simp add: charAt0_is_def)
  have e: "encoded_ms (Text ''s250'') = Some 250"
    by (simp add: encoded_ms_def text_simps)
  from queued_pause_is_not_playing [OF pause_queued_reachable pause_queued_playList p c, of 0 initial_globals]
    pause_queued_reachable pause_queued_playList c e
  show ?thesis
    by simp
qed

subsection \<open>Foreground play\<close>

text \<open>
  C10. \<^verbatim>\<open>playFlexFX\<close> with \<^verbatim>\<open>background = false\<close> and an id that \<^verbatim>\<open>find\<close> meets: the
  call appends the compiled Play, activates the player (spawning the worker unless it
  is active or the play-list is stopped) and, last, waits for \<^verbatim>\<open>ALLPLAYED\<close>. The worker
  raises \<^verbatim>\<open>ALLPLAYED\<close> only with the play-list empty. Run on the globals the call leaves
  (reachable and not stopped), the worker deals with every Play that was queued before,
  then with the new one, and raises \<^verbatim>\<open>ALLPLAYED\<close> after all of them, leaving the
  play-list empty.
\<close>

theorem foreground_play_waits_for_all:
  assumes "find (\<lambda>i. id_fx i = Some ident) (flexFXList s) = Some target"
  shows "playFlexFX ident pitch volume dur False s =
           ((compilePlay target pitch volume dur s)
              \<lparr> playerActive := (playerActive s \<or> \<not> playerStopped s) \<rparr>,
            (if playerActive s \<or> playerStopped s then [] else [InBackground])
            @ [WaitForEvent ALLPLAYED])
    \<and> (RaiseEvent ALLPLAYED \<in> set (fst (snd (player t))) \<longrightarrow> playList (fst (player t)) = [])
    \<and> (reachable s \<and> \<not> playerStopped s \<longrightarrow>
         (\<exists>s'. player (fst (playFlexFX ident pitch volume dur False s)) =
                  (s',
                   concat (map actions_for (playList s))
                   @ actions_for (last (playList (compilePlay target pitch volume dur s)))
                   @ [RaiseEvent ALLPLAYED],
                   Returned)
                \<and> playList s' = []))"
proof -
  let ?c = "compilePlay target pitch volume dur s"
  let ?t = "?c\<lparr> playerActive := (playerActive s \<or> \<not> playerStopped s) \<rparr>"
  have flags: "playerActive ?c = playerActive s" "playerStopped ?c = playerStopped s"
    by (simp_all add: compilePlay_def Let_def)
  have call: "playFlexFX ident pitch volume dur False s =
           (?t, (if playerActive s \<or> playerStopped s then [] else [InBackground])
                @ [WaitForEvent ALLPLAYED])"
    using assms by (simp add: playFlexFX_def activatePlayer_eq flags)
  have run: "\<exists>s'. player ?t =
                  (s', concat (map actions_for (playList s))
                       @ actions_for (last (playList ?c)) @ [RaiseEvent ALLPLAYED], Returned)
                \<and> playList s' = []"
    if r: "reachable s" and ns: "\<not> playerStopped s"
  proof -
    have "target \<in> set (flexFXList s)"
      using assms by (auto simp: find_Some_iff)
    with r have "globals_ok ?c"
      using reachable_ok [OF r] stored_flags [OF r] by (simp add: compilePlay_ok)
    then have ok: "\<forall>p \<in> set (playList ?t). parts p \<noteq> []"
      by (simp add: globals_ok_def)
    have pl: "playList ?t = playList s @ [last (playList ?c)]"
      by (simp add: compilePlay_def Let_def)
    have "\<not> playerStopped ?t"
      using ns flags by simp
    from player_loop_all [OF this ok] obtain s1 where
      "player_loop ?t = (s1, concat (map actions_for (playList ?t)), Returned)" "playList s1 = []"
      by blast
    then show ?thesis
      by (simp add: player_def pl)
  qed
  from call run ALLPLAYED_only_when_empty [of t] show ?thesis
    by simp
qed

text \<open>
  The recipe \<open>ting\<close> played in the foreground with all three arguments left at \<open>0\<close>: one
  sound from (800, 200) to (720, 160) lasting 400 ms.
\<close>

theorem foreground_play_waits_for_all_witness:
  "find (\<lambda>i. id_fx i = Some ''ting'') (flexFXList ting_registry)
     = Some (last (flexFXList ting_registry))
   \<and> reachable ting_registry \<and> \<not> playerStopped ting_registry
   \<and> snd (playFlexFX ''ting'' 0 0 0 False ting_registry) = [InBackground, WaitForEvent ALLPLAYED]
   \<and> playList (fst (playFlexFX ''ting'' 0 0 0 False ting_registry))
       = [\<lparr> parts = [SoundEffect 0 800 720 200 160 400 0 0] \<rparr>]
   \<and> (\<exists>s'. player (fst (playFlexFX ''ting'' 0 0 0 False ting_registry)) =
              (s',
               [RaiseEvent STARTING, PlaySoundEffect (SoundEffect 0 800 720 200 160 400 0 0),
                RaiseEvent FINISHED, RaiseEvent ALLPLAYED],
               Returned)
            \<and> playList s' = [])"
proof -
  have f: "find (\<lambda>i. id_fx i = Some ''ting'') (flexFXList ting_registry)
             = Some (last (flexFXList ting_registry))"
    by (simp add: ting_stored)
  have flags: "\<not> playerStopped ting_registry" "\<not> playerActive ting_registry"
    "playList ting_registry = []"
    by (simp_all add: ting_registry_def createFlexFX_def storeFlexFX_def Let_def initial_globals_def)
  have c: "playList (compilePlay (last (flexFXList ting_registry)) 0 0 0 ting_registry)
             = [\<lparr> parts = [SoundEffect 0 800 720 200 160 400 0 0] \<rparr>]"
    unfolding compilePlay_def Let_def
    by (simp add: flags ting_stored fl_eval)
  have a: "actions_for \<lparr> parts = [SoundEffect 0 800 720 200 160 400 0 0] \<rparr> =
             [RaiseEvent STARTING, PlaySoundEffect (SoundEffect 0 800 720 200 160 400 0 0),
              RaiseEvent FINISHED]"
    by (simp add: actions_for_def player_turn_def initial_globals_def charAt0_is_def)
  note w = foreground_play_waits_for_all [OF f, of 0 0 0 initial_globals]
  from w have "playFlexFX ''ting'' 0 0 0 False ting_registry =
      ((compilePlay (last (flexFXList ting_registry)) 0 0 0 ting_registry)
         \<lparr> playerActive := (playerActive ting_registry \<or> \<not> playerStopped ting_registry) \<rparr>,
       (if playerActive ting_registry \<or> playerStopped ting_registry then [] else [InBackground])
       @ [WaitForEvent ALLPLAYED])"
    by blast
  then have call: "snd (playFlexFX ''ting'' 0 0 0 False ting_registry)
        = [InBackground, WaitForEvent ALLPLAYED]"
      "playList (fst (playFlexFX ''ting'' 0 0 0 False ting_registry))
        = [\<lparr> parts = [SoundEffect 0 800 720 200 160 400 0 0] \<rparr>]"
    by (simp_all add: flags c)
  from w ting_reachable flags(1)
  have "\<exists>s'. player (fst (playFlexFX ''ting'' 0 0 0 False ting_registry)) =
              (s',
               concat (map actions_for (playList ting_registry))
               @ actions_for (last (playList
                    (compilePlay (last (flexFXList ting_registry)) 0 0 0 ting_registry)))
               @ [RaiseEvent ALLPLAYED],
               Returned)
            \<and> playList s' = []"
    by blast
  then have run: "\<exists>s'. player (fst (playFlexFX ''ting'' 0 0 0 False ting_registry)) =
              (s',
               [RaiseEvent STARTING, PlaySoundEffect (SoundEffect 0 800 720 200 160 400 0 0),
                RaiseEvent FINISHED, RaiseEvent ALLPLAYED],
               Returned)
            \<and> playList s' = []"
    by (simp add: flags c a)
  from f ting_reachable flags(1) call run show ?thesis
    by blast
qed

end
